theory Spec2Isabelle
  imports Complex_Main "HOL-Library.Multiset" "HOL-Library.Monad_Syntax"
begin

section \<open>Data model\<close>

text \<open>
  The risk-scoring pass of \<^verbatim>\<open>fraud_detection.py\<close> works on a pandas DataFrame read from
  the CSV written by \<^verbatim>\<open>generate_mock_data.py\<close>. A row of that frame is a record with the
  seven CSV columns. Floating-point columns are idealised as reals; a float that can be
  NaN (a threshold, a percentile of an empty column) is a \<open>real option\<close> with \<open>None\<close> for
  NaN. The frame is the list of its rows, in index order; a column (a pandas Series) is
  the list of its values in the same order.
\<close>

datatype gender = Male | Female

record policy =
  customer_id :: int
  gender :: gender
  age :: int
  car_model_year :: int
  annual_premium :: real
  total_loss :: real
  loss_ratio :: real

text \<open>The working frame \<^verbatim>\<open>claims\<close>: the input columns plus \<^verbatim>\<open>risk_score\<close> and \<^verbatim>\<open>flags\<close>.\<close>

record assessment = policy +
  risk_score :: int
  flags :: string

text \<open>The third component returned by \<^verbatim>\<open>apply_rules\<close>.\<close>

record thresholds =
  loss_95_threshold :: "real option"
  premium_25_threshold :: "real option"
  age_group_thresholds :: "(string \<times> real option) list"

section \<open>Configuration\<close>

definition RULE_DEFINITIONS :: "(string \<times> string \<times> int) list" where
  "RULE_DEFINITIONS =
    [(''extreme_loss_ratio'', ''Extreme Loss Ratio (>15x)'', 3),
     (''statistical_outlier'', ''Statistical Outlier (>mean+3*std by age group)'', 2),
     (''new_car_high_loss'', ''New Car (>=2022), High Loss (>$10k)'', 2),
     (''young_driver_extreme'', ''Young Driver (<25), Extreme Claim (>$15k)'', 2),
     (''premium_loss_mismatch'', ''Premium-Loss Mismatch (top 5% loss, bottom 25% premium)'', 1)]"

text \<open>
  \<^verbatim>\<open>RULE_DEFINITIONS[rule]["score"]\<close>. The lookup is only made at the five literal keys
  above, so the \<^verbatim>\<open>KeyError\<close> branch is never taken; it is modelled as score 0.
\<close>

definition rule_score :: "string \<Rightarrow> int" where
  "rule_score rule = (case map_of RULE_DEFINITIONS rule of Some (label, score) \<Rightarrow> score | None \<Rightarrow> 0)"

section \<open>Library operations used by the engine\<close>

subsection \<open>Comparisons and arithmetic with NaN\<close>

text \<open>Every comparison with NaN is false; arithmetic with NaN gives NaN.\<close>

fun nan_gt :: "real \<Rightarrow> real option \<Rightarrow> bool" where
  "nan_gt x None = False"
| "nan_gt x (Some t) = (x > t)"

fun nan_ge :: "real \<Rightarrow> real option \<Rightarrow> bool" where
  "nan_ge x None = False"
| "nan_ge x (Some t) = (x \<ge> t)"

fun nan_le :: "real \<Rightarrow> real option \<Rightarrow> bool" where
  "nan_le x None = False"
| "nan_le x (Some t) = (x \<le> t)"

fun nan_add :: "real option \<Rightarrow> real option \<Rightarrow> real option" where
  "nan_add (Some a) (Some b) = Some (a + b)"
| "nan_add _ _ = None"

fun nan_scale :: "real \<Rightarrow> real option \<Rightarrow> real option" where
  "nan_scale k (Some a) = Some (k * a)"
| "nan_scale k None = None"

subsection \<open>\<^verbatim>\<open>pd.cut(..., right=False)\<close>\<close>

text \<open>
  With \<^verbatim>\<open>right=False\<close> the i-th interval is \<open>[bins[i], bins[i+1])\<close> and carries
  \<open>labels[i]\<close>; a value in no interval gets NaN (here \<open>None\<close>).
\<close>

fun cut :: "int list \<Rightarrow> string list \<Rightarrow> int \<Rightarrow> string option" where
  "cut (lo # hi # bs) (l # ls) x = (if lo \<le> x \<and> x < hi then Some l else cut (hi # bs) ls x)"
| "cut _ _ x = None"

definition bins :: "int list" where
  "bins = [0, 25, 35, 45, 55, 65, 200]"

definition labels :: "string list" where
  "labels = [''<25'', ''25-34'', ''35-44'', ''45-54'', ''55-64'', ''65+'']"

text \<open>\<^verbatim>\<open>pd.cut(claims["age"], bins=bins, labels=labels, right=False)\<close> on one value.\<close>

definition age_group :: "int \<Rightarrow> string option" where
  "age_group a = cut bins labels a"

subsection \<open>Mean, standard deviation, quantile\<close>

text \<open>
  \<^verbatim>\<open>mean\<close> of an empty column is NaN. \<^verbatim>\<open>std\<close> is pandas' default, the sample
  standard deviation (\<^verbatim>\<open>ddof=1\<close>), which is NaN for fewer than two values.
\<close>

definition mean :: "real list \<Rightarrow> real option" where
  "mean xs = (if xs = [] then None else Some (sum_list xs / real (length xs)))"

definition std :: "real list \<Rightarrow> real option" where
  "std xs =
    (if length xs < 2 then None
     else let m = sum_list xs / real (length xs)
          in Some (sqrt (sum_list (map (\<lambda>x. (x - m)\<^sup>2) xs) / real (length xs - 1))))"

text \<open>
  \<^verbatim>\<open>Series.quantile(q)\<close> with the default linear interpolation between order statistics:
  position \<open>(n - 1) * q\<close> in the sorted values. NaN on an empty column.
\<close>

definition quantile :: "real \<Rightarrow> real list \<Rightarrow> real option" where
  "quantile q xs =
    (if xs = [] then None
     else let s = sort xs;
              h = real (length xs - 1) * q;
              lo = nat \<lfloor>h\<rfloor>;
              hi = min (lo + 1) (length xs - 1)
          in Some (s ! lo + (h - real lo) * (s ! hi - s ! lo)))"

subsection \<open>Group-by, masked updates, dictionaries, strings\<close>

text \<open>
  \<^verbatim>\<open>claims.groupby("age_group", observed=True)["total_loss"]\<close>: the values of each
  observed category, the categories in their declared order; rows whose key is NaN
  belong to no group.
\<close>

definition group_values :: "string option list \<Rightarrow> real list \<Rightarrow> string \<Rightarrow> real list" where
  "group_values keys vals l = map snd (filter (\<lambda>(k, v). k = Some l) (zip keys vals))"

definition groupby_observed :: "string option list \<Rightarrow> real list \<Rightarrow> (string \<times> real list) list" where
  "groupby_observed keys vals =
     map (\<lambda>l. (l, group_values keys vals l)) (filter (\<lambda>l. group_values keys vals l \<noteq> []) labels)"

text \<open>\<^verbatim>\<open>series.map(mapping)\<close>: a NaN key or a key missing from the mapping gives NaN.\<close>

definition map_series :: "(string \<times> real option) list \<Rightarrow> string option \<Rightarrow> real option" where
  "map_series m k =
     (case k of None \<Rightarrow> None
      | Some l \<Rightarrow> (case map_of m l of None \<Rightarrow> None | Some t \<Rightarrow> t))"

text \<open>\<^verbatim>\<open>claims.loc[mask, "risk_score"] += v\<close> and \<^verbatim>\<open>claims.loc[mask, "flags"] += s\<close>.\<close>

definition loc_add_score :: "bool list \<Rightarrow> int \<Rightarrow> assessment list \<Rightarrow> assessment list" where
  "loc_add_score msk v claims =
     map (\<lambda>(m, r). if m then r\<lparr>risk_score := risk_score r + v\<rparr> else r) (zip msk claims)"

definition loc_add_flags :: "bool list \<Rightarrow> string \<Rightarrow> assessment list \<Rightarrow> assessment list" where
  "loc_add_flags msk s claims =
     map (\<lambda>(m, r). if m then r\<lparr>flags := flags r @ s\<rparr> else r) (zip msk claims)"

text \<open>\<^verbatim>\<open>int(mask.sum())\<close>\<close>

definition mask_sum :: "bool list \<Rightarrow> nat" where
  "mask_sum msk = length (filter (\<lambda>m. m) msk)"

text \<open>\<^verbatim>\<open>d[k] = v\<close> on an insertion-ordered dictionary.\<close>

fun dict_set :: "'k \<Rightarrow> 'v \<Rightarrow> ('k \<times> 'v) list \<Rightarrow> ('k \<times> 'v) list" where
  "dict_set k v [] = [(k, v)]"
| "dict_set k v ((k', v') # kvs) =
     (if k = k' then (k, v) # kvs else (k', v') # dict_set k v kvs)"

text \<open>\<^verbatim>\<open>s.rstrip(chars)\<close>: drops every trailing character that is in \<open>chars\<close>.\<close>

definition rstrip :: "string \<Rightarrow> string \<Rightarrow> string" where
  "rstrip chars s = rev (dropWhile (\<lambda>c. c \<in> set chars) (rev s))"

section \<open>The engine: \<^verbatim>\<open>apply_rules\<close>\<close>

text \<open>A row of the working frame, from its input columns and its two tracking columns.\<close>

definition claim_row :: "policy \<Rightarrow> int \<Rightarrow> string \<Rightarrow> assessment" where
  "claim_row r s f = policy.extend r (assessment.fields s f)"

text \<open>
  \<^verbatim>\<open>claims = df[df["total_loss"] > 0].copy()\<close>, then \<^verbatim>\<open>claims["risk_score"] = 0\<close> and
  \<^verbatim>\<open>claims["flags"] = ""\<close>.
\<close>

definition init_claims :: "policy list \<Rightarrow> assessment list" where
  "init_claims df = map (\<lambda>r. claim_row r 0 []) (filter (\<lambda>r. total_loss r > 0) df)"

text \<open>
  The three statements that follow the computation of each rule's mask:
  \<^verbatim>\<open>claims.loc[mask, "risk_score"] += RULE_DEFINITIONS[rule]["score"]\<close>,
  \<^verbatim>\<open>claims.loc[mask, "flags"] += rule + ","\<close> and
  \<^verbatim>\<open>flag_counts[rule] = int(mask.sum())\<close>. The state is the pair of the frame and the
  dictionary of counts.
\<close>

definition rule_pass ::
  "string \<Rightarrow> bool list \<Rightarrow> assessment list \<times> (string \<times> nat) list
     \<Rightarrow> assessment list \<times> (string \<times> nat) list" where
  "rule_pass rule msk st =
     (loc_add_flags msk (rule @ '','') (loc_add_score msk (rule_score rule) (fst st)),
      dict_set rule (mask_sum msk) (snd st))"

text \<open>Rule 1: \<^verbatim>\<open>claims["loss_ratio"] > 15\<close>, on the stored column.\<close>

definition mask_extreme_loss_ratio :: "assessment list \<Rightarrow> bool list" where
  "mask_extreme_loss_ratio claims = map (\<lambda>x. x > 15) (map loss_ratio claims)"

text \<open>
  Rule 2: the helper column \<^verbatim>\<open>age_group\<close>, the per-group \<^verbatim>\<open>mean + 3 * std\<close> of
  \<^verbatim>\<open>total_loss\<close> (\<^verbatim>\<open>group_stats["threshold"]\<close>), the helper column
  \<^verbatim>\<open>outlier_threshold\<close> and the mask. The helper columns are kept beside the frame; the
  source drops them before it returns the frame.
\<close>

definition age_group_col :: "assessment list \<Rightarrow> string option list" where
  "age_group_col claims = map age_group (map age claims)"

definition group_threshold :: "assessment list \<Rightarrow> (string \<times> real option) list" where
  "group_threshold claims =
     map (\<lambda>(l, vs). (l, nan_add (mean vs) (nan_scale 3 (std vs))))
       (groupby_observed (age_group_col claims) (map total_loss claims))"

definition outlier_threshold :: "(string \<times> real option) list \<Rightarrow> assessment list \<Rightarrow> real option list" where
  "outlier_threshold thr claims = map (map_series thr) (age_group_col claims)"

definition mask_statistical_outlier :: "(string \<times> real option) list \<Rightarrow> assessment list \<Rightarrow> bool list" where
  "mask_statistical_outlier thr claims =
     map2 nan_gt (map total_loss claims) (outlier_threshold thr claims)"

text \<open>Rule 3: \<^verbatim>\<open>(claims["car_model_year"] >= 2022) & (claims["total_loss"] > 10_000)\<close>.\<close>

definition mask_new_car_high_loss :: "assessment list \<Rightarrow> bool list" where
  "mask_new_car_high_loss claims =
     map2 (\<and>) (map (\<lambda>y. y \<ge> 2022) (map car_model_year claims))
              (map (\<lambda>x. x > 10000) (map total_loss claims))"

text \<open>Rule 4: \<^verbatim>\<open>(claims["age"] < 25) & (claims["total_loss"] > 15_000)\<close>.\<close>

definition mask_young_driver_extreme :: "assessment list \<Rightarrow> bool list" where
  "mask_young_driver_extreme claims =
     map2 (\<and>) (map (\<lambda>a. a < 25) (map age claims))
              (map (\<lambda>x. x > 15000) (map total_loss claims))"

text \<open>
  Rule 5: \<^verbatim>\<open>(claims["total_loss"] >= loss_95) & (claims["annual_premium"] <= premium_25)\<close>.
\<close>

definition mask_premium_loss_mismatch :: "real option \<Rightarrow> real option \<Rightarrow> assessment list \<Rightarrow> bool list" where
  "mask_premium_loss_mismatch loss_95 premium_25 claims =
     map2 (\<and>) (map (\<lambda>x. nan_ge x loss_95) (map total_loss claims))
              (map (\<lambda>p. nan_le p premium_25) (map annual_premium claims))"

text \<open>
  The function, statement by statement; a rebinding of \<open>st\<close> is the source's in-place
  update of \<^verbatim>\<open>claims\<close> and \<^verbatim>\<open>flag_counts\<close>. The result is the triple the source
  returns. The line the source prints to standard output is modelled in
  \<open>apply_rules_run\<close> below.
\<close>

definition apply_rules :: "policy list \<Rightarrow> assessment list \<times> (string \<times> nat) list \<times> thresholds" where
  "apply_rules df =
    (let claims = init_claims df;
         st = (claims, []);
         st = rule_pass ''extreme_loss_ratio'' (mask_extreme_loss_ratio (fst st)) st;
         thr = group_threshold (fst st);
         st = rule_pass ''statistical_outlier'' (mask_statistical_outlier thr (fst st)) st;
         st = rule_pass ''new_car_high_loss'' (mask_new_car_high_loss (fst st)) st;
         st = rule_pass ''young_driver_extreme'' (mask_young_driver_extreme (fst st)) st;
         loss_95 = quantile (95 / 100) (map total_loss (fst st));
         premium_25 = quantile (25 / 100) (map annual_premium (fst st));
         st = rule_pass ''premium_loss_mismatch''
                (mask_premium_loss_mismatch loss_95 premium_25 (fst st)) st;
         claims = map (\<lambda>r. r\<lparr>flags := rstrip '','' (flags r)\<rparr>) (fst st)
     in (claims, snd st,
         \<lparr>loss_95_threshold = loss_95,
          premium_25_threshold = premium_25,
          age_group_thresholds = thr\<rparr>))"

section \<open>The rules, record by record\<close>

text \<open>
  The five rules as the engine decides them, for one record \<open>r\<close> of the claim subset
  \<open>cs\<close>, written in plain arithmetic and with none of the library operations above:
  \<^item> rule 1 compares the \<open>loss_ratio\<close> field stored in the record with 15;
  \<^item> rule 2 takes the records whose age lies in the same interval of the bins 0, 25, 35,
    45, 55, 65, 200 as the record's (a record whose age lies in none does not meet the
    rule), and asks for at least two of them and a \<open>total_loss\<close> above their mean plus
    three times their sample standard deviation;
  \<^item> rules 3 and 4 read the record alone;
  \<^item> rule 5 compares with the 95th percentile of \<open>total_loss\<close> and the 25th percentile
    of \<open>annual_premium\<close> over the whole claim subset, interpolated linearly between
    order statistics.
  That the masks of \<open>apply_rules\<close> compute these predicates is proved below
  (\<open>table_predicate_engine\<close> and the lemmas on the masks).
\<close>

definition claim_subset :: "policy list \<Rightarrow> policy list" where
  "claim_subset df = filter (\<lambda>r. total_loss r > 0) df"

definition band_interval :: "int \<Rightarrow> (int \<times> int) option" where
  "band_interval a =
     (if 0 \<le> a \<and> a < 25 then Some (0, 25)
      else if 25 \<le> a \<and> a < 35 then Some (25, 35)
      else if 35 \<le> a \<and> a < 45 then Some (35, 45)
      else if 45 \<le> a \<and> a < 55 then Some (45, 55)
      else if 55 \<le> a \<and> a < 65 then Some (55, 65)
      else if 65 \<le> a \<and> a < 200 then Some (65, 200)
      else None)"

definition exceeds_three_sigma :: "real list \<Rightarrow> real \<Rightarrow> bool" where
  "exceeds_three_sigma xs x \<longleftrightarrow>
     2 \<le> length xs \<and>
     x > sum_list xs / real (length xs) +
         3 * sqrt (sum_list (map (\<lambda>y. (y - sum_list xs / real (length xs))\<^sup>2) xs)
                   / real (length xs - 1))"

definition interpolated_percentile :: "real \<Rightarrow> real list \<Rightarrow> real" where
  "interpolated_percentile q xs =
     (let s = sort xs; h = real (length xs - 1) * q; i = nat \<lfloor>h\<rfloor>
      in if i + 1 < length xs then s ! i + (h - real i) * (s ! (i + 1) - s ! i) else s ! i)"

definition table_predicate :: "string \<Rightarrow> policy list \<Rightarrow> policy \<Rightarrow> bool" where
  "table_predicate rule cs r =
     (if rule = ''extreme_loss_ratio'' then loss_ratio r > 15
      else if rule = ''statistical_outlier'' then
        (case band_interval (age r) of None \<Rightarrow> False
         | Some (lo, hi) \<Rightarrow>
             exceeds_three_sigma
               (map total_loss (filter (\<lambda>x. lo \<le> age x \<and> age x < hi) cs)) (total_loss r))
      else if rule = ''new_car_high_loss'' then car_model_year r \<ge> 2022 \<and> total_loss r > 10000
      else if rule = ''young_driver_extreme'' then age r < 25 \<and> total_loss r > 15000
      else if rule = ''premium_loss_mismatch'' then
        cs \<noteq> [] \<and>
        total_loss r \<ge> interpolated_percentile (95 / 100) (map total_loss cs) \<and>
        annual_premium r \<le> interpolated_percentile (25 / 100) (map annual_premium cs)
      else False)"

text \<open>
  The same rule 2 and rule 5 in the engine's own terms: the losses of a labelled band and
  the band's threshold as \<^verbatim>\<open>group_stats["threshold"]\<close> holds it.
\<close>

definition band_losses :: "policy list \<Rightarrow> string \<Rightarrow> real list" where
  "band_losses cs b = map total_loss (filter (\<lambda>x. age_group (age x) = Some b) cs)"

definition band_threshold :: "policy list \<Rightarrow> string \<Rightarrow> real option" where
  "band_threshold cs b = nan_add (mean (band_losses cs b)) (nan_scale 3 (std (band_losses cs b)))"

text \<open>The identifiers of the rules that hold for a record, in table order, and their total score.\<close>

definition triggered_rules :: "policy list \<Rightarrow> policy \<Rightarrow> string list" where
  "triggered_rules cs r =
     map fst (filter (\<lambda>(rule, label, score). table_predicate rule cs r) RULE_DEFINITIONS)"

definition table_score :: "policy list \<Rightarrow> policy \<Rightarrow> int" where
  "table_score cs r =
     sum_list (map (\<lambda>(rule, label, score). score)
       (filter (\<lambda>(rule, label, score). table_predicate rule cs r) RULE_DEFINITIONS))"

text \<open>\<^verbatim>\<open>sep.join(xs)\<close>\<close>

fun join :: "string \<Rightarrow> string list \<Rightarrow> string" where
  "join sep [] = []"
| "join sep [x] = x"
| "join sep (x # y # ys) = x @ sep @ join sep (y # ys)"

section \<open>The rule table of the specification\<close>





section \<open>Consumers of the engine's result\<close>

text \<open>
  \<^verbatim>\<open>s.split(sep)\<close> for a one-character separator: the pieces between the separators;
  the empty string splits into one empty piece.
\<close>

fun split_on :: "char \<Rightarrow> string \<Rightarrow> string list" where
  "split_on c [] = [[]]"
| "split_on c (x # xs) =
     (if x = c then [] # split_on c xs
      else (case split_on c xs of w # ws \<Rightarrow> (x # w) # ws | [] \<Rightarrow> [[x]]))"

text \<open>
  How \<^verbatim>\<open>generate_html_report\<close> reads the triggered rules back from a row:
  \<^verbatim>\<open>[f for f in row["flags"].split(",") if f in RULE_DEFINITIONS]\<close>.
\<close>

definition flagged_rules :: "assessment \<Rightarrow> string list" where
  "flagged_rules row =
     filter (\<lambda>f. f \<in> set (map fst RULE_DEFINITIONS)) (split_on CHR '','' (flags row))"

section \<open>The generator's \<^verbatim>\<open>loss_ratio\<close> column\<close>

text \<open>
  \<^verbatim>\<open>np.where(annual_premium > 0, total_loss / annual_premium, 0.0).round(4)\<close> in
  \<^verbatim>\<open>generate_mock_data.py\<close>. \<^verbatim>\<open>round\<close> rounds half to even at the given number of
  decimals. The quotient here is the exact real one, where the generator divides and
  scales in binary floating point; the two can differ where the exact quotient lies half
  way between two neighbours at four decimals (premium 800 and loss 12000.04 give 15
  here, and may give 15.0001 there). The function is only evaluated away from such
  ties: at a premium that is not positive, where the result is 0 whatever the loss, and
  at premium 1000 and loss 15000.04, whose quotient 15.00004 is far from a tie.
\<close>

definition rint :: "real \<Rightarrow> int" where
  "rint x =
     (let f = \<lfloor>x\<rfloor>; d = x - of_int f
      in if d < 1 / 2 then f else if d > 1 / 2 then f + 1 else if even f then f else f + 1)"

definition np_round :: "nat \<Rightarrow> real \<Rightarrow> real" where
  "np_round decimals x = of_int (rint (x * 10 ^ decimals)) / 10 ^ decimals"

definition generated_loss_ratio :: "real \<Rightarrow> real \<Rightarrow> real" where
  "generated_loss_ratio premium loss = np_round 4 (if premium > 0 then loss / premium else 0)"

section \<open>The engine as a program on objects\<close>

text \<open>
  \<open>apply_rules\<close> above gives what the function returns. Its effects are those of the
  same statements on the objects of the running program: data frames, reached through
  references, the module's global \<^verbatim>\<open>RULE_DEFINITIONS\<close>, and standard output. A data
  frame holds the seven input columns, row by row, and may hold the columns
  \<^verbatim>\<open>risk_score\<close>, \<^verbatim>\<open>flags\<close>, \<^verbatim>\<open>age_group\<close> and \<^verbatim>\<open>outlier_threshold\<close> (\<open>None\<close> when the
  frame has no such column). A statement that raises (a \<^verbatim>\<open>KeyError\<close> for a column or a
  key that is missing) gives \<open>None\<close>.
\<close>

record frame =
  policy_rows :: "policy list"
  risk_score_column :: "int list option"
  flags_column :: "string list option"
  age_group_column :: "string option list option"
  outlier_threshold_column :: "real option list option"

record world =
  heap :: "nat \<Rightarrow> frame option"
  next_ref :: nat
  rule_definitions :: "(string \<times> string \<times> int) list"
  stdout :: string

text \<open>Creating an object, updating an object in place, writing a line.\<close>

definition new_object :: "frame \<Rightarrow> world \<Rightarrow> nat \<times> world" where
  "new_object f w =
     (next_ref w, w\<lparr>heap := (heap w)(next_ref w \<mapsto> f), next_ref := Suc (next_ref w)\<rparr>)"

definition update_object :: "nat \<Rightarrow> (frame \<Rightarrow> frame option) \<Rightarrow> world \<Rightarrow> world option" where
  "update_object p operation w =
     do { f \<leftarrow> heap w p; f' \<leftarrow> operation f; Some (w\<lparr>heap := (heap w)(p \<mapsto> f')\<rparr>) }"

text \<open>\<^verbatim>\<open>print(s)\<close> writes \<open>s\<close> and a newline.\<close>

definition print :: "string \<Rightarrow> world \<Rightarrow> world" where
  "print s w = w\<lparr>stdout := stdout w @ s @ [CHR 0x0A]\<rparr>"

text \<open>\<^verbatim>\<open>f"{n:,}"\<close>: the decimal digits of \<open>n\<close> in groups of three, separated by commas.\<close>

fun decimal :: "nat \<Rightarrow> string" where
  "decimal n =
     (if n < 10 then [''0123456789'' ! n]
      else decimal (n div 10) @ [''0123456789'' ! (n mod 10)])"

declare decimal.simps [simp del]

function group_thousands :: "string \<Rightarrow> string" where
  "group_thousands ds =
     (if length ds \<le> 3 then ds
      else group_thousands (take (length ds - 3) ds) @ '','' @ drop (length ds - 3) ds)"
  by pat_completeness auto
termination
  by (relation "measure length") auto

declare group_thousands.simps [simp del]

definition format_thousands :: "nat \<Rightarrow> string" where
  "format_thousands n = group_thousands (decimal n)"

text \<open>\<^verbatim>\<open>df[mask]\<close>: the rows at which the mask is true, in every column.\<close>

definition select :: "bool list \<Rightarrow> 'a list \<Rightarrow> 'a list" where
  "select msk xs = map snd (filter fst (zip msk xs))"

definition boolean_index :: "bool list \<Rightarrow> frame \<Rightarrow> frame" where
  "boolean_index msk f =
     \<lparr>policy_rows = select msk (policy_rows f),
      risk_score_column = map_option (select msk) (risk_score_column f),
      flags_column = map_option (select msk) (flags_column f),
      age_group_column = map_option (select msk) (age_group_column f),
      outlier_threshold_column = map_option (select msk) (outlier_threshold_column f)\<rparr>"

text \<open>\<^verbatim>\<open>claims["risk_score"] = 0\<close> and \<^verbatim>\<open>claims["flags"] = ""\<close>: a column of one value.\<close>

definition setitem_risk_score :: "int \<Rightarrow> frame \<Rightarrow> frame option" where
  "setitem_risk_score v f =
     Some (f\<lparr>risk_score_column := Some (replicate (length (policy_rows f)) v)\<rparr>)"

definition setitem_flags :: "string \<Rightarrow> frame \<Rightarrow> frame option" where
  "setitem_flags v f =
     Some (f\<lparr>flags_column := Some (replicate (length (policy_rows f)) v)\<rparr>)"

text \<open>\<^verbatim>\<open>claims["age_group"] = ...\<close> and \<^verbatim>\<open>claims["outlier_threshold"] = ...\<close>.\<close>

definition setitem_age_group :: "string option list \<Rightarrow> frame \<Rightarrow> frame option" where
  "setitem_age_group col f = Some (f\<lparr>age_group_column := Some col\<rparr>)"

definition setitem_outlier_threshold :: "real option list \<Rightarrow> frame \<Rightarrow> frame option" where
  "setitem_outlier_threshold col f = Some (f\<lparr>outlier_threshold_column := Some col\<rparr>)"

text \<open>
  \<^verbatim>\<open>claims.loc[mask, "risk_score"] += v\<close> and \<^verbatim>\<open>claims.loc[mask, "flags"] += s\<close>, on the
  column of the frame.
\<close>

definition loc_add_risk_score :: "bool list \<Rightarrow> int \<Rightarrow> frame \<Rightarrow> frame option" where
  "loc_add_risk_score msk v f =
     (case risk_score_column f of
        None \<Rightarrow> None
      | Some col \<Rightarrow>
          Some (f\<lparr>risk_score_column :=
                    Some (map (\<lambda>(m, x). if m then x + v else x) (zip msk col))\<rparr>))"

definition loc_add_flags_column :: "bool list \<Rightarrow> string \<Rightarrow> frame \<Rightarrow> frame option" where
  "loc_add_flags_column msk s f =
     (case flags_column f of
        None \<Rightarrow> None
      | Some col \<Rightarrow>
          Some (f\<lparr>flags_column :=
                    Some (map (\<lambda>(m, x). if m then x @ s else x) (zip msk col))\<rparr>))"

text \<open>\<^verbatim>\<open>claims["flags"] = claims["flags"].str.rstrip(",")\<close>\<close>

definition rstrip_flags :: "frame \<Rightarrow> frame option" where
  "rstrip_flags f =
     (case flags_column f of
        None \<Rightarrow> None
      | Some col \<Rightarrow> Some (f\<lparr>flags_column := Some (map (rstrip '','') col)\<rparr>))"

text \<open>\<^verbatim>\<open>claims.drop(columns=["age_group", "outlier_threshold"], inplace=True)\<close>\<close>

definition drop_helpers :: "frame \<Rightarrow> frame option" where
  "drop_helpers f =
     (if age_group_column f = None \<or> outlier_threshold_column f = None then None
      else Some (f\<lparr>age_group_column := None, outlier_threshold_column := None\<rparr>))"

text \<open>
  The three statements after each mask, on the frame behind \<open>claims\<close>; the score is
  looked up in the module's \<^verbatim>\<open>RULE_DEFINITIONS\<close>. The state is the world and the local
  dictionary \<^verbatim>\<open>flag_counts\<close>.
\<close>

definition rule_update ::
  "nat \<Rightarrow> string \<Rightarrow> bool list \<Rightarrow> world \<times> (string \<times> nat) list
     \<Rightarrow> (world \<times> (string \<times> nat) list) option" where
  "rule_update claims rule msk st =
     do {
       entry \<leftarrow> map_of (rule_definitions (fst st)) rule;
       w \<leftarrow> update_object claims (loc_add_risk_score msk (snd entry)) (fst st);
       w \<leftarrow> update_object claims (loc_add_flags_column msk (rule @ '','')) w;
       Some (w, dict_set rule (mask_sum msk) (snd st))
     }"

text \<open>Rule 1.\<close>

definition rule1_run ::
  "nat \<Rightarrow> world \<times> (string \<times> nat) list \<Rightarrow> (world \<times> (string \<times> nat) list) option" where
  "rule1_run claims st =
     do {
       f \<leftarrow> heap (fst st) claims;
       rule_update claims ''extreme_loss_ratio''
         (map (\<lambda>x. x > 15) (map loss_ratio (policy_rows f))) st
     }"

text \<open>
  Rule 2: the two helper columns are written to the frame, and read back for the group
  statistics and the mask. The thresholds of the groups are returned with the state.
\<close>

definition rule2_run ::
  "nat \<Rightarrow> world \<times> (string \<times> nat) list
     \<Rightarrow> ((world \<times> (string \<times> nat) list) \<times> (string \<times> real option) list) option" where
  "rule2_run claims st =
     do {
       f \<leftarrow> heap (fst st) claims;
       w \<leftarrow> update_object claims
              (setitem_age_group (map age_group (map age (policy_rows f)))) (fst st);
       f \<leftarrow> heap w claims;
       keys \<leftarrow> age_group_column f;
       let group_stats = map (\<lambda>(l, vs). (l, mean vs, std vs))
                           (groupby_observed keys (map total_loss (policy_rows f)));
       let threshold = map (\<lambda>(l, m, s). (l, nan_add m (nan_scale 3 s))) group_stats;
       w \<leftarrow> update_object claims
              (setitem_outlier_threshold (map (map_series threshold) keys)) w;
       f \<leftarrow> heap w claims;
       thresholds_col \<leftarrow> outlier_threshold_column f;
       st \<leftarrow> rule_update claims ''statistical_outlier''
               (map2 nan_gt (map total_loss (policy_rows f)) thresholds_col) (w, snd st);
       Some (st, threshold)
     }"

text \<open>Rules 3 and 4.\<close>

definition rule3_run ::
  "nat \<Rightarrow> world \<times> (string \<times> nat) list \<Rightarrow> (world \<times> (string \<times> nat) list) option" where
  "rule3_run claims st =
     do {
       f \<leftarrow> heap (fst st) claims;
       rule_update claims ''new_car_high_loss''
         (map2 (\<and>) (map (\<lambda>y. y \<ge> 2022) (map car_model_year (policy_rows f)))
                    (map (\<lambda>x. x > 10000) (map total_loss (policy_rows f)))) st
     }"

definition rule4_run ::
  "nat \<Rightarrow> world \<times> (string \<times> nat) list \<Rightarrow> (world \<times> (string \<times> nat) list) option" where
  "rule4_run claims st =
     do {
       f \<leftarrow> heap (fst st) claims;
       rule_update claims ''young_driver_extreme''
         (map2 (\<and>) (map (\<lambda>a. a < 25) (map age (policy_rows f)))
                    (map (\<lambda>x. x > 15000) (map total_loss (policy_rows f)))) st
     }"

text \<open>Rule 5; the two percentiles are returned with the state.\<close>

definition rule5_run ::
  "nat \<Rightarrow> world \<times> (string \<times> nat) list
     \<Rightarrow> ((world \<times> (string \<times> nat) list) \<times> real option \<times> real option) option" where
  "rule5_run claims st =
     do {
       f \<leftarrow> heap (fst st) claims;
       let loss_95 = quantile (95 / 100) (map total_loss (policy_rows f));
       let premium_25 = quantile (25 / 100) (map annual_premium (policy_rows f));
       st \<leftarrow> rule_update claims ''premium_loss_mismatch''
               (map2 (\<and>) (map (\<lambda>x. nan_ge x loss_95) (map total_loss (policy_rows f)))
                          (map (\<lambda>p. nan_le p premium_25) (map annual_premium (policy_rows f))))
               st;
       Some (st, loss_95, premium_25)
     }"

text \<open>
  \<^verbatim>\<open>apply_rules(df)\<close>, statement by statement. The text printed ends in a newline of its
  own, so a blank line follows it.
\<close>

definition apply_rules_run ::
  "nat \<Rightarrow> world \<Rightarrow> ((nat \<times> (string \<times> nat) list \<times> thresholds) \<times> world) option" where
  "apply_rules_run df w =
     do {
       d \<leftarrow> heap w df;
       let (claims, w) =
             new_object (boolean_index (map (\<lambda>x. x > 0) (map total_loss (policy_rows d))) d) w;
       c \<leftarrow> heap w claims;
       let w = print (''Customers with claims (total_loss > 0): ''
                       @ format_thousands (length (policy_rows c)) @ [CHR 0x0A]) w;
       w \<leftarrow> update_object claims (setitem_risk_score 0) w;
       w \<leftarrow> update_object claims (setitem_flags []) w;
       st \<leftarrow> rule1_run claims (w, []);
       (st, thr) \<leftarrow> rule2_run claims st;
       st \<leftarrow> rule3_run claims st;
       st \<leftarrow> rule4_run claims st;
       (st, loss_95, premium_25) \<leftarrow> rule5_run claims st;
       w \<leftarrow> update_object claims rstrip_flags (fst st);
       w \<leftarrow> update_object claims drop_helpers w;
       Some ((claims, snd st,
              \<lparr>loss_95_threshold = loss_95,
               premium_25_threshold = premium_25,
               age_group_thresholds = thr\<rparr>), w)
     }"

text \<open>
  A world as the interpreter leaves it: every object in use has a reference below the
  next one to be given out.
\<close>

definition wf_world :: "world \<Rightarrow> bool" where
  "wf_world w \<longleftrightarrow> (\<forall>p. heap w p \<noteq> None \<longrightarrow> p < next_ref w)"

text \<open>
  The world in which the object at \<open>p\<close> is \<open>f\<close>, and the working frame in which the score
  and the flags of each row are given by two functions of the input row.
\<close>

definition put_frame :: "nat \<Rightarrow> frame \<Rightarrow> world \<Rightarrow> world" where
  "put_frame p f w = w\<lparr>heap := (heap w)(p \<mapsto> f)\<rparr>"

definition claims_frame ::
  "policy list \<Rightarrow> (policy \<Rightarrow> int) \<Rightarrow> (policy \<Rightarrow> string)
     \<Rightarrow> string option list option \<Rightarrow> real option list option \<Rightarrow> frame" where
  "claims_frame cs sc fl ag ot =
     \<lparr>policy_rows = cs, risk_score_column = Some (map sc cs), flags_column = Some (map fl cs),
      age_group_column = ag, outlier_threshold_column = ot\<rparr>"

text \<open>A frame with the input columns alone.\<close>

definition input_frame :: "policy list \<Rightarrow> frame" where
  "input_frame rows =
     \<lparr>policy_rows = rows, risk_score_column = None, flags_column = None,
      age_group_column = None, outlier_threshold_column = None\<rparr>"

section \<open>Example inputs\<close>

definition mk_policy :: "int \<Rightarrow> int \<Rightarrow> int \<Rightarrow> real \<Rightarrow> real \<Rightarrow> real \<Rightarrow> policy" where
  "mk_policy i a y p l lr =
     \<lparr>customer_id = i, gender = Male, age = a, car_model_year = y,
      annual_premium = p, total_loss = l, loss_ratio = lr\<rparr>"

text \<open>The three claim records of the specification's end-to-end scenario, and a record without a claim.\<close>

definition scenario :: "policy list" where
  "scenario =
     [mk_policy 1 50 2010 1000 16000 16,
      mk_policy 2 22 2010 900 16000 (160 / 9),
      mk_policy 3 40 2023 1200 10500 (105 / 12),
      mk_policy 4 30 2000 1000 0 0]"

text \<open>
  A record as the generator writes it: premium 1000.00, loss 15000.04, and the stored
  ratio rounded to four decimals.
\<close>

definition rounded_record :: policy where
  "rounded_record =
     mk_policy 5 40 2010 1000 (1500004 / 100) (generated_loss_ratio 1000 (1500004 / 100))"

text \<open>Two claim records with a premium of zero: one with a stored ratio of 20, one with the generator's 0.\<close>

definition zero_premium_record :: policy where
  "zero_premium_record = mk_policy 6 40 2010 0 100 20"

definition zero_premium_generated :: policy where
  "zero_premium_generated = mk_policy 7 40 2010 0 500 (generated_loss_ratio 0 500)"



text \<open>
  Two worlds with the module as loaded and nothing printed yet. In the first the only
  object is the scenario's input frame, at reference 0. In the second, reference 0 is a
  frame that \<open>apply_rules\<close> returned before (it has the columns \<^verbatim>\<open>risk_score\<close> and
  \<^verbatim>\<open>flags\<close>), and reference 1 is another input frame.
\<close>

definition world0 :: world where
  "world0 =
     \<lparr>heap = (\<lambda>p. if p = 0 then Some (input_frame scenario) else None),
      next_ref = 1, rule_definitions = RULE_DEFINITIONS, stdout = []\<rparr>"

definition world1 :: world where
  "world1 =
     \<lparr>heap = (\<lambda>p. if p = 0 then
                     Some ((input_frame [rounded_record])
                             \<lparr>risk_score_column := Some [1],
                              flags_column := Some [''premium_loss_mismatch'']\<rparr>)
                   else if p = 1 then Some (input_frame scenario) else None),
      next_ref = 2, rule_definitions = RULE_DEFINITIONS, stdout = []\<rparr>"

section \<open>Properties\<close>


subsection \<open>The rules in the engine's terms\<close>

lemma exceeds_three_sigma_nan:
  "exceeds_three_sigma xs x = nan_gt x (nan_add (mean xs) (nan_scale 3 (std xs)))"
proof (cases "length xs < 2")
  case True
  then have "std xs = None" by (simp add: std_def)
  then have "nan_add (mean xs) (nan_scale 3 (std xs)) = None"
    by (cases "mean xs") simp_all
  with True show ?thesis by (simp add: exceeds_three_sigma_def)
next
  case False
  then have "xs \<noteq> []" by auto
  with False show ?thesis
    by (simp add: exceeds_three_sigma_def mean_def std_def Let_def)
qed

lemma quantile_interpolated:
  assumes "xs \<noteq> []" and "0 \<le> q" and "q \<le> 1"
  shows "quantile q xs = Some (interpolated_percentile q xs)"
proof -
  let ?n = "length xs"
  let ?h = "real (?n - 1) * q"
  have "?h \<le> real (?n - 1)"
    using assms(2,3) by (simp add: mult_left_le)
  then have "\<lfloor>?h\<rfloor> \<le> int (?n - 1)" by (simp add: floor_le_iff)
  then have lo: "nat \<lfloor>?h\<rfloor> \<le> ?n - 1" by simp
  show ?thesis
  proof (cases "nat \<lfloor>?h\<rfloor> + 1 < ?n")
    case True
    then have "nat \<lfloor>?h\<rfloor> + 1 \<le> ?n - 1" by linarith
    then have m: "min (nat \<lfloor>?h\<rfloor> + 1) (?n - 1) = nat \<lfloor>?h\<rfloor> + 1"
      by (rule min_absorb1)
    show ?thesis
      unfolding quantile_def interpolated_percentile_def Let_def m
      using True assms(1) by (simp only: if_True if_False)
  next
    case False
    with lo have eq: "?n - 1 = nat \<lfloor>?h\<rfloor>" by linarith
    then have "?n - 1 \<le> nat \<lfloor>?h\<rfloor> + 1" by linarith
    then have "min (nat \<lfloor>?h\<rfloor> + 1) (?n - 1) = ?n - 1"
      by (rule min_absorb2)
    also note eq
    finally have m: "min (nat \<lfloor>?h\<rfloor> + 1) (?n - 1) = nat \<lfloor>?h\<rfloor>" .
    show ?thesis
      unfolding quantile_def interpolated_percentile_def Let_def m
      using False assms(1) by (simp only: if_True if_False diff_self mult_zero_right add_0_right)
  qed
qed

lemma nan_ge_quantile:
  "0 \<le> q \<Longrightarrow> q \<le> 1 \<Longrightarrow>
   nan_ge x (quantile q xs) \<longleftrightarrow> xs \<noteq> [] \<and> x \<ge> interpolated_percentile q xs"
  by (cases "xs = []") (simp_all add: quantile_interpolated, simp add: quantile_def)

lemma nan_le_quantile:
  "0 \<le> q \<Longrightarrow> q \<le> 1 \<Longrightarrow>
   nan_le x (quantile q xs) \<longleftrightarrow> xs \<noteq> [] \<and> x \<le> interpolated_percentile q xs"
  by (cases "xs = []") (simp_all add: quantile_interpolated, simp add: quantile_def)

lemma age_group_closed_form:
  "age_group a =
     (if a < 0 then None
      else if a < 25 then Some ''<25''
      else if a < 35 then Some ''25-34''
      else if a < 45 then Some ''35-44''
      else if a < 55 then Some ''45-54''
      else if a < 65 then Some ''55-64''
      else if a < 200 then Some ''65+''
      else None)"
  by (simp add: age_group_def bins_def labels_def)

lemma band_interval_None: "band_interval a = None \<Longrightarrow> age_group a = None"
  by (auto simp: band_interval_def age_group_closed_form split: if_splits)

lemma band_interval_Some:
  assumes "band_interval a = Some (lo, hi)"
  shows "\<exists>b. age_group a = Some b \<and> (\<forall>x. age_group x = Some b \<longleftrightarrow> lo \<le> x \<and> x < hi)"
proof -
  consider "lo = 0 \<and> hi = 25 \<and> 0 \<le> a \<and> a < 25" | "lo = 25 \<and> hi = 35 \<and> 25 \<le> a \<and> a < 35"
    | "lo = 35 \<and> hi = 45 \<and> 35 \<le> a \<and> a < 45" | "lo = 45 \<and> hi = 55 \<and> 45 \<le> a \<and> a < 55"
    | "lo = 55 \<and> hi = 65 \<and> 55 \<le> a \<and> a < 65" | "lo = 65 \<and> hi = 200 \<and> 65 \<le> a \<and> a < 200"
    using assms by (auto simp: band_interval_def split: if_splits)
  then show ?thesis
  proof cases
    case 1
    then have "age_group a = Some ''<25''" by (simp add: age_group_closed_form)
    moreover have "\<forall>x. age_group x = Some ''<25'' \<longleftrightarrow> lo \<le> x \<and> x < hi"
      using 1 by (simp add: age_group_closed_form)
    ultimately show ?thesis by blast
  next
    case 2
    then have "age_group a = Some ''25-34''" by (simp add: age_group_closed_form)
    moreover have "\<forall>x. age_group x = Some ''25-34'' \<longleftrightarrow> lo \<le> x \<and> x < hi"
      using 2 by (simp add: age_group_closed_form)
    ultimately show ?thesis by blast
  next
    case 3
    then have "age_group a = Some ''35-44''" by (simp add: age_group_closed_form)
    moreover have "\<forall>x. age_group x = Some ''35-44'' \<longleftrightarrow> lo \<le> x \<and> x < hi"
      using 3 by (simp add: age_group_closed_form)
    ultimately show ?thesis by blast
  next
    case 4
    then have "age_group a = Some ''45-54''" by (simp add: age_group_closed_form)
    moreover have "\<forall>x. age_group x = Some ''45-54'' \<longleftrightarrow> lo \<le> x \<and> x < hi"
      using 4 by (simp add: age_group_closed_form)
    ultimately show ?thesis by blast
  next
    case 5
    then have "age_group a = Some ''55-64''" by (simp add: age_group_closed_form)
    moreover have "\<forall>x. age_group x = Some ''55-64'' \<longleftrightarrow> lo \<le> x \<and> x < hi"
      using 5 by (simp add: age_group_closed_form)
    ultimately show ?thesis by blast
  next
    case 6
    then have "age_group a = Some ''65+''" by (simp add: age_group_closed_form)
    moreover have "\<forall>x. age_group x = Some ''65+'' \<longleftrightarrow> lo \<le> x \<and> x < hi"
      using 6 by (simp add: age_group_closed_form)
    ultimately show ?thesis by blast
  qed
qed

lemma outlier_engine:
  "(case band_interval (age r) of None \<Rightarrow> False
    | Some (lo, hi) \<Rightarrow>
        exceeds_three_sigma
          (map total_loss (filter (\<lambda>x. lo \<le> age x \<and> age x < hi) cs)) (total_loss r)) =
   (case age_group (age r) of None \<Rightarrow> False
    | Some b \<Rightarrow> nan_gt (total_loss r) (band_threshold cs b))"
proof (cases "band_interval (age r)")
  case None
  then show ?thesis by (simp add: band_interval_None)
next
  case (Some iv)
  obtain lo hi where iv: "iv = (lo, hi)" by (cases iv)
  from Some iv obtain b where b: "age_group (age r) = Some b"
    and same: "\<forall>x. age_group x = Some b \<longleftrightarrow> lo \<le> x \<and> x < hi"
    using band_interval_Some by blast
  have "filter (\<lambda>x. lo \<le> age x \<and> age x < hi) cs = filter (\<lambda>x. age_group (age x) = Some b) cs"
    using same by simp
  then show ?thesis
    by (simp add: Some iv b band_threshold_def band_losses_def exceeds_three_sigma_nan)
qed

text \<open>
  The predicates in the engine's own terms: the band as \<^verbatim>\<open>pd.cut\<close> labels it, the
  threshold and the percentiles as floats that may be NaN.
\<close>

lemma table_predicate_engine:
  "table_predicate rule cs r =
     (if rule = ''extreme_loss_ratio'' then loss_ratio r > 15
      else if rule = ''statistical_outlier'' then
        (case age_group (age r) of None \<Rightarrow> False
         | Some b \<Rightarrow> nan_gt (total_loss r) (band_threshold cs b))
      else if rule = ''new_car_high_loss'' then car_model_year r \<ge> 2022 \<and> total_loss r > 10000
      else if rule = ''young_driver_extreme'' then age r < 25 \<and> total_loss r > 15000
      else if rule = ''premium_loss_mismatch'' then
        nan_ge (total_loss r) (quantile (95 / 100) (map total_loss cs)) \<and>
        nan_le (annual_premium r) (quantile (25 / 100) (map annual_premium cs))
      else False)"
proof -
  have q: "nan_ge (total_loss r) (quantile (95 / 100) (map total_loss cs)) \<and>
           nan_le (annual_premium r) (quantile (25 / 100) (map annual_premium cs)) \<longleftrightarrow>
           cs \<noteq> [] \<and>
           total_loss r \<ge> interpolated_percentile (95 / 100) (map total_loss cs) \<and>
           annual_premium r \<le> interpolated_percentile (25 / 100) (map annual_premium cs)"
    by (simp only: nan_ge_quantile nan_le_quantile) auto
  show ?thesis
    unfolding table_predicate_def outlier_engine q by (rule refl)
qed


subsection \<open>The passes, row by row\<close>

lemma claim_row_cols [simp]:
  "customer_id (claim_row r s f) = customer_id r"
  "gender (claim_row r s f) = gender r"
  "age (claim_row r s f) = age r"
  "car_model_year (claim_row r s f) = car_model_year r"
  "annual_premium (claim_row r s f) = annual_premium r"
  "total_loss (claim_row r s f) = total_loss r"
  "loss_ratio (claim_row r s f) = loss_ratio r"
  "risk_score (claim_row r s f) = s"
  "flags (claim_row r s f) = f"
  by (simp_all add: claim_row_def policy.defs assessment.defs)

lemma claim_row_update [simp]:
  "(claim_row r s f)\<lparr>risk_score := s'\<rparr> = claim_row r s' f"
  "(claim_row r s f)\<lparr>flags := f'\<rparr> = claim_row r s f'"
  by (simp_all add: claim_row_def policy.defs assessment.defs)

lemma truncate_claim_row [simp]: "policy.truncate (claim_row r s f) = r"
  by (simp add: claim_row_def policy.defs assessment.defs)

lemma claim_row_inject: "claim_row r s f = claim_row r' s' f' \<longleftrightarrow> r = r' \<and> s = s' \<and> f = f'"
  by (metis claim_row_cols(8) claim_row_cols(9) truncate_claim_row)

lemma map2_same: "map2 f (map g xs) (map h xs) = map (\<lambda>x. f (g x) (h x)) xs"
  by (induction xs) simp_all

lemma loc_add_score_rows:
  "loc_add_score (map P cs) v (map (\<lambda>r. claim_row r (sc r) (fl r)) cs) =
     map (\<lambda>r. claim_row r (if P r then sc r + v else sc r) (fl r)) cs"
  by (induction cs) (simp_all add: loc_add_score_def)

lemma loc_add_flags_rows:
  "loc_add_flags (map P cs) t (map (\<lambda>r. claim_row r (sc r) (fl r)) cs) =
     map (\<lambda>r. claim_row r (sc r) (if P r then fl r @ t else fl r)) cs"
  by (induction cs) (simp_all add: loc_add_flags_def)

lemma mask_sum_map: "mask_sum (map P cs) = length (filter P cs)"
  by (induction cs) (simp_all add: mask_sum_def)

lemma rule_pass_rows:
  "rule_pass rule (map P cs) (map (\<lambda>r. claim_row r (sc r) (fl r)) cs, fc) =
     (map (\<lambda>r. claim_row r (if P r then sc r + rule_score rule else sc r)
                            (if P r then fl r @ rule @ '','' else fl r)) cs,
      dict_set rule (length (filter P cs)) fc)"
  by (simp add: rule_pass_def loc_add_score_rows loc_add_flags_rows mask_sum_map)

lemma mask1_rows:
  "mask_extreme_loss_ratio (map (\<lambda>r. claim_row r (sc r) (fl r)) cs) =
     map (table_predicate ''extreme_loss_ratio'' cs) cs"
  by (simp add: mask_extreme_loss_ratio_def table_predicate_engine o_def)

lemma mask3_rows:
  "mask_new_car_high_loss (map (\<lambda>r. claim_row r (sc r) (fl r)) cs) =
     map (table_predicate ''new_car_high_loss'' cs) cs"
  by (simp add: mask_new_car_high_loss_def table_predicate_engine map2_same)

lemma mask4_rows:
  "mask_young_driver_extreme (map (\<lambda>r. claim_row r (sc r) (fl r)) cs) =
     map (table_predicate ''young_driver_extreme'' cs) cs"
  by (simp add: mask_young_driver_extreme_def table_predicate_engine map2_same)

lemma mask5_rows:
  "mask_premium_loss_mismatch (quantile (95 / 100) (map total_loss cs)) (quantile (25 / 100) (map annual_premium cs))
      (map (\<lambda>r. claim_row r (sc r) (fl r)) cs) =
     map (table_predicate ''premium_loss_mismatch'' cs) cs"
  by (simp add: mask_premium_loss_mismatch_def table_predicate_engine map2_same)

lemma group_values_band:
  "group_values (map (\<lambda>r. age_group (age r)) cs) (map total_loss cs) l = band_losses cs l"
  by (induction cs) (simp_all add: group_values_def band_losses_def)

lemma group_threshold_rows:
  "group_threshold (map (\<lambda>r. claim_row r (sc r) (fl r)) cs) =
     map (\<lambda>l. (l, band_threshold cs l)) (filter (\<lambda>l. band_losses cs l \<noteq> []) labels)"
  by (simp add: group_threshold_def age_group_col_def groupby_observed_def o_def
      group_values_band band_threshold_def)

lemma cut_in_labels: "cut bs ls a = Some b \<Longrightarrow> b \<in> set ls"
  by (induction bs ls a rule: cut.induct) (auto split: if_splits)

lemma age_group_in_labels: "age_group a = Some b \<Longrightarrow> b \<in> set labels"
  by (simp add: age_group_def cut_in_labels)

lemma map_of_tabulate: "k \<in> set ks \<Longrightarrow> map_of (map (\<lambda>l. (l, f l)) ks) k = Some (f k)"
  by (induction ks) auto

lemma map_series_band:
  assumes "r \<in> set cs"
  shows "map_series (map (\<lambda>l. (l, band_threshold cs l)) (filter (\<lambda>l. band_losses cs l \<noteq> []) labels))
           (age_group (age r)) =
         (case age_group (age r) of None \<Rightarrow> None | Some b \<Rightarrow> band_threshold cs b)"
proof (cases "age_group (age r)")
  case None
  then show ?thesis by (simp add: map_series_def)
next
  case (Some b)
  have "total_loss r \<in> set (band_losses cs b)"
    using assms Some by (auto simp: band_losses_def)
  then have "band_losses cs b \<noteq> []" by auto
  with Some have "b \<in> set (filter (\<lambda>l. band_losses cs l \<noteq> []) labels)"
    by (simp add: age_group_in_labels)
  then show ?thesis
    using Some by (simp add: map_series_def map_of_tabulate)
qed

lemma mask2_rows:
  "mask_statistical_outlier
      (map (\<lambda>l. (l, band_threshold cs l)) (filter (\<lambda>l. band_losses cs l \<noteq> []) labels))
      (map (\<lambda>r. claim_row r (sc r) (fl r)) cs) =
     map (table_predicate ''statistical_outlier'' cs) cs"
proof -
  let ?thr = "map (\<lambda>l. (l, band_threshold cs l)) (filter (\<lambda>l. band_losses cs l \<noteq> []) labels)"
  have "mask_statistical_outlier ?thr (map (\<lambda>r. claim_row r (sc r) (fl r)) cs) =
        map (\<lambda>r. nan_gt (total_loss r) (map_series ?thr (age_group (age r)))) cs"
    by (simp add: mask_statistical_outlier_def outlier_threshold_def age_group_col_def o_def map2_same)
  also have "\<dots> = map (table_predicate ''statistical_outlier'' cs) cs"
    by (rule map_cong) (auto simp: map_series_band table_predicate_engine split: option.splits)
  finally show ?thesis .
qed


subsection \<open>The result of the engine\<close>

lemma init_claims_rows: "init_claims df = map (\<lambda>r. claim_row r 0 []) (claim_subset df)"
  by (simp add: init_claims_def claim_subset_def)

lemma rule_scores:
  "rule_score ''extreme_loss_ratio'' = 3"
  "rule_score ''statistical_outlier'' = 2"
  "rule_score ''new_car_high_loss'' = 2"
  "rule_score ''young_driver_extreme'' = 2"
  "rule_score ''premium_loss_mismatch'' = 1"
  by (simp_all add: rule_score_def RULE_DEFINITIONS_def)

lemma table_score_unfold:
  "table_score cs r =
     (if table_predicate ''extreme_loss_ratio'' cs r then 3 else 0) +
     (if table_predicate ''statistical_outlier'' cs r then 2 else 0) +
     (if table_predicate ''new_car_high_loss'' cs r then 2 else 0) +
     (if table_predicate ''young_driver_extreme'' cs r then 2 else 0) +
     (if table_predicate ''premium_loss_mismatch'' cs r then 1 else 0)"
  by (simp add: table_score_def RULE_DEFINITIONS_def)

lemma triggered_rules_unfold:
  "triggered_rules cs r =
     (if table_predicate ''extreme_loss_ratio'' cs r then [''extreme_loss_ratio''] else []) @
     (if table_predicate ''statistical_outlier'' cs r then [''statistical_outlier''] else []) @
     (if table_predicate ''new_car_high_loss'' cs r then [''new_car_high_loss''] else []) @
     (if table_predicate ''young_driver_extreme'' cs r then [''young_driver_extreme''] else []) @
     (if table_predicate ''premium_loss_mismatch'' cs r then [''premium_loss_mismatch''] else [])"
  by (simp add: triggered_rules_def RULE_DEFINITIONS_def)

text \<open>
  The result of \<open>apply_rules\<close>, row by row: the frame holds one row per record of the claim
  subset, in order, with the table score and the joined identifiers of the table's
  predicates that hold; the counts and thresholds are those of the claim subset.
\<close>

lemma apply_rules_rows:
  fixes df defines "cs \<equiv> claim_subset df"
  shows "apply_rules df =
    (map (\<lambda>r. claim_row r (table_score cs r) (join '','' (triggered_rules cs r))) cs,
     map (\<lambda>(rule, label, score). (rule, length (filter (table_predicate rule cs) cs))) RULE_DEFINITIONS,
     \<lparr>loss_95_threshold = quantile (95 / 100) (map total_loss cs),
      premium_25_threshold = quantile (25 / 100) (map annual_premium cs),
      age_group_thresholds =
        map (\<lambda>l. (l, band_threshold cs l)) (filter (\<lambda>l. band_losses cs l \<noteq> []) labels)\<rparr>)"
  unfolding apply_rules_def Let_def init_claims_rows cs_def[symmetric]
  apply (simp only: fst_conv snd_conv rule_pass_rows mask1_rows)
  apply (simp only: fst_conv snd_conv rule_pass_rows group_threshold_rows mask2_rows)
  apply (simp only: fst_conv snd_conv rule_pass_rows mask3_rows)
  apply (simp only: fst_conv snd_conv rule_pass_rows mask4_rows)
  apply (simp only: fst_conv snd_conv rule_pass_rows mask5_rows list.map_comp o_def claim_row_cols)
  apply (simp only: claim_row_update claim_row_cols prod.inject)
  apply (intro conjI)
  subgoal
    apply (rule map_cong[OF refl])
    apply (simp only: claim_row_inject rule_scores table_score_unfold triggered_rules_unfold)
    apply (intro conjI)
      apply simp
     apply simp
    apply (simp add: rstrip_def)
    done
  subgoal by (simp add: RULE_DEFINITIONS_def)
  subgoal by simp
  done


subsection \<open>Reading the flags back; the risk score\<close>

lemma split_on_nonempty: "split_on c s \<noteq> []"
  by (induction s) (auto split: list.splits)

lemma split_on_no_sep: "c \<notin> set n \<Longrightarrow> split_on c n = [n]"
  by (induction n) auto

lemma split_on_append: "c \<notin> set n \<Longrightarrow> split_on c (n @ c # rest) = n # split_on c rest"
  by (induction n) auto

lemma split_on_join:
  "ns \<noteq> [] \<Longrightarrow> \<forall>n\<in>set ns. c \<notin> set n \<Longrightarrow> split_on c (join [c] ns) = ns"
proof (induction "[c]" ns rule: join.induct)
  case 1
  then show ?case by simp
next
  case (2 x)
  then show ?case by (simp add: split_on_no_sep)
next
  case (3 x y ys)
  then show ?case by (simp add: split_on_append)
qed

lemma triggered_rules_sub: "set (triggered_rules cs r) \<subseteq> set (map fst RULE_DEFINITIONS)"
  by (auto simp: triggered_rules_def)

lemma rule_names_no_comma: "n \<in> set (map fst RULE_DEFINITIONS) \<Longrightarrow> CHR '','' \<notin> set n"
  by (auto simp: RULE_DEFINITIONS_def)

lemma flagged_rules_row:
  "flagged_rules (claim_row r s (join '','' (triggered_rules cs r))) = triggered_rules cs r"
proof (cases "triggered_rules cs r = []")
  case True
  then show ?thesis by (simp add: flagged_rules_def RULE_DEFINITIONS_def)
next
  case False
  have "\<forall>n\<in>set (triggered_rules cs r). CHR '','' \<notin> set n"
    using triggered_rules_sub rule_names_no_comma by blast
  with False have "split_on CHR '','' (join '','' (triggered_rules cs r)) = triggered_rules cs r"
    by (rule split_on_join)
  moreover have "filter (\<lambda>f. f \<in> set (map fst RULE_DEFINITIONS)) (triggered_rules cs r) = triggered_rules cs r"
    using triggered_rules_sub by (auto simp: filter_id_conv)
  ultimately show ?thesis by (simp add: flagged_rules_def)
qed

lemma triggered_rules_iff:
  "rule \<in> set (triggered_rules cs r) \<longleftrightarrow>
     rule \<in> set (map fst RULE_DEFINITIONS) \<and> table_predicate rule cs r"
  by (auto simp: triggered_rules_def)

text \<open>Every row of the returned frame comes from a record of the claim subset.\<close>

lemma apply_rules_row:
  assumes "a \<in> set (fst (apply_rules df))"
  obtains r where "r \<in> set (claim_subset df)"
    and "a = claim_row r (table_score (claim_subset df) r) (join '','' (triggered_rules (claim_subset df) r))"
  using assms by (auto simp: apply_rules_rows)


lemma claim_subset_scenario:
  "claim_subset scenario = [mk_policy 1 50 2010 1000 16000 16,
      mk_policy 2 22 2010 900 16000 (160 / 9),
      mk_policy 3 40 2023 1200 10500 (105 / 12)]"
  by (simp add: claim_subset_def scenario_def mk_policy_def)

lemma age_group_simps:
  "age_group 50 = Some ''45-54''" "age_group 22 = Some ''<25''" "age_group 40 = Some ''35-44''"
  "age_group 30 = Some ''25-34''" "age_group 20 = Some ''<25''"
  by (simp_all add: age_group_def bins_def labels_def)

lemma scenario_scores:
  "map (table_score (claim_subset scenario)) (claim_subset scenario) = [3, 6, 2]"
  unfolding claim_subset_scenario
  by (simp add: table_score_unfold table_predicate_engine mk_policy_def age_group_simps
      band_threshold_def band_losses_def std_def mean_def quantile_def)











lemma table_score_explicit:
  "table_score cs r =
     (if loss_ratio r > 15 then 3 else 0) +
     (if (case band_interval (age r) of None \<Rightarrow> False
          | Some (lo, hi) \<Rightarrow>
              exceeds_three_sigma
                (map total_loss (filter (\<lambda>x. lo \<le> age x \<and> age x < hi) cs)) (total_loss r))
      then 2 else 0) +
     (if car_model_year r \<ge> 2022 \<and> total_loss r > 10000 then 2 else 0) +
     (if age r < 25 \<and> total_loss r > 15000 then 2 else 0) +
     (if cs \<noteq> [] \<and>
         total_loss r \<ge> interpolated_percentile (95 / 100) (map total_loss cs) \<and>
         annual_premium r \<le> interpolated_percentile (25 / 100) (map annual_premium cs)
      then 1 else 0)"
  unfolding table_score_unfold table_predicate_def by simp




subsection \<open>The flags column\<close>

lemma join_eq_Nil: "\<forall>n\<in>set ns. n \<noteq> [] \<Longrightarrow> join sep ns = [] \<longleftrightarrow> ns = []"
  by (induction sep ns rule: join.induct) auto

lemma join_Cons: "ns \<noteq> [] \<Longrightarrow> join sep (n # ns) = n @ sep @ join sep ns"
  by (cases ns) auto

lemma last_join:
  "ns \<noteq> [] \<Longrightarrow> \<forall>n\<in>set ns. n \<noteq> [] \<Longrightarrow> last (join sep ns) = last (last ns)"
proof (induction sep ns rule: join.induct)
  case (3 sep x y ys)
  then have "join sep (y # ys) \<noteq> []" by (simp add: join_eq_Nil)
  with 3 show ?case by simp
qed simp_all

lemma rule_names_nonempty: "n \<in> set (map fst RULE_DEFINITIONS) \<Longrightarrow> n \<noteq> []"
  by (auto simp: RULE_DEFINITIONS_def)

lemma triggered_nonempty_names: "\<forall>n\<in>set (triggered_rules cs r). n \<noteq> []"
  using triggered_rules_sub rule_names_nonempty by blast

lemma table_score_pos: "0 < table_score cs r \<longleftrightarrow> triggered_rules cs r \<noteq> []"
  by (simp add: table_score_unfold triggered_rules_unfold)

lemma distinct_rule_names: "distinct (map fst RULE_DEFINITIONS)"
  by (simp add: RULE_DEFINITIONS_def)

lemma filter_map_fst_distinct:
  assumes "distinct (map fst xs)"
  shows "map fst (filter P xs) = filter (\<lambda>n. n \<in> set (map fst (filter P xs))) (map fst xs)"
proof -
  from assms have inj: "inj_on fst (set xs)" by (simp add: distinct_map)
  have "filter (\<lambda>y. fst y \<in> set (map fst (filter P xs))) xs = filter P xs"
  proof (rule filter_cong[OF refl])
    fix y assume y: "y \<in> set xs"
    show "(fst y \<in> set (map fst (filter P xs))) = P y"
    proof
      assume "fst y \<in> set (map fst (filter P xs))"
      then obtain z where z: "z \<in> set xs" "P z" "fst z = fst y" by auto
      with inj y have "z = y" by (auto dest: inj_onD)
      with z show "P y" by simp
    next
      assume "P y"
      with y show "fst y \<in> set (map fst (filter P xs))" by auto
    qed
  qed
  then have "map fst (filter P xs) =
             map fst (filter (\<lambda>y. fst y \<in> set (map fst (filter P xs))) xs)"
    by simp
  also have "\<dots> = filter (\<lambda>n. n \<in> set (map fst (filter P xs))) (map fst xs)"
    by (simp only: filter_map o_def)
  finally show ?thesis .
qed

lemma triggered_rules_table_order:
  "triggered_rules cs r = filter (\<lambda>n. n \<in> set (triggered_rules cs r)) (map fst RULE_DEFINITIONS)"
  unfolding triggered_rules_def by (rule filter_map_fst_distinct[OF distinct_rule_names])

text \<open>
  Claim C10. The returned frame holds exactly one row per record of the claim subset, in
  the order of the input; the \<open>flags\<close> of a row is the comma-joined list of the identifiers
  of the rules that hold for it, in the order of the rule table, with no trailing comma,
  and it is non-empty exactly when the row's \<open>risk_score\<close> is positive.
\<close>

theorem assessments_and_flags:
  "map policy.truncate (fst (apply_rules df)) = claim_subset df \<and>
   map flags (fst (apply_rules df)) =
     map (\<lambda>r. join '','' (triggered_rules (claim_subset df) r)) (claim_subset df) \<and>
   (\<forall>a\<in>set (fst (apply_rules df)).
      (flags a \<noteq> [] \<longleftrightarrow> risk_score a > 0) \<and>
      flags a = join '','' (flagged_rules a) \<and>
      (flags a \<noteq> [] \<longrightarrow> last (flags a) \<noteq> CHR '','') \<and>
      flagged_rules a = filter (\<lambda>n. n \<in> set (flagged_rules a)) (map fst RULE_DEFINITIONS))"
proof (intro conjI ballI)
  show "map policy.truncate (fst (apply_rules df)) = claim_subset df"
    by (simp add: apply_rules_rows o_def)
  show "map flags (fst (apply_rules df)) =
     map (\<lambda>r. join '','' (triggered_rules (claim_subset df) r)) (claim_subset df)"
    by (simp add: apply_rules_rows o_def)
next
  fix a assume "a \<in> set (fst (apply_rules df))"
  then obtain r where r: "r \<in> set (claim_subset df)"
    and a: "a = claim_row r (table_score (claim_subset df) r)
                  (join '','' (triggered_rules (claim_subset df) r))"
    by (rule apply_rules_row)
  let ?t = "triggered_rules (claim_subset df) r"
  have fr: "flagged_rules a = ?t" unfolding a by (rule flagged_rules_row)
  have ne: "flags a \<noteq> [] \<longleftrightarrow> ?t \<noteq> []"
    by (simp add: a join_eq_Nil triggered_nonempty_names)
  show "flags a \<noteq> [] \<longleftrightarrow> risk_score a > 0"
    using ne by (simp add: a table_score_pos)
  show "flags a = join '','' (flagged_rules a)"
    by (simp add: fr) (simp add: a)
  show "flags a \<noteq> [] \<longrightarrow> last (flags a) \<noteq> CHR '',''"
  proof
    assume "flags a \<noteq> []"
    with ne have t: "?t \<noteq> []" by simp
    then have "last ?t \<in> set ?t" by simp
    then have l: "last ?t \<noteq> [] \<and> CHR '','' \<notin> set (last ?t)"
      using triggered_rules_sub rule_names_no_comma rule_names_nonempty by blast
    have "last (flags a) = last (last ?t)"
      by (simp add: a last_join[OF t triggered_nonempty_names])
    also have "\<dots> \<in> set (last ?t)" using l by simp
    finally show "last (flags a) \<noteq> CHR '',''" using l by metis
  qed
  show "flagged_rules a = filter (\<lambda>n. n \<in> set (flagged_rules a)) (map fst RULE_DEFINITIONS)"
    unfolding fr by (rule triggered_rules_table_order)
qed

lemma scenario_triggered:
  "map (triggered_rules (claim_subset scenario)) (claim_subset scenario) =
     [[''extreme_loss_ratio''],
      [''extreme_loss_ratio'', ''young_driver_extreme'', ''premium_loss_mismatch''],
      [''new_car_high_loss'']]"
  unfolding claim_subset_scenario
  by (simp add: triggered_rules_unfold table_predicate_engine mk_policy_def age_group_simps
      band_threshold_def band_losses_def std_def mean_def quantile_def)

theorem assessments_and_flags_witness:
  "map customer_id (fst (apply_rules scenario)) = [1, 2, 3] \<and>
   map flags (fst (apply_rules scenario)) =
     [''extreme_loss_ratio'',
      ''extreme_loss_ratio,young_driver_extreme,premium_loss_mismatch'',
      ''new_car_high_loss'']"
proof -
  have t: "map policy.truncate (fst (apply_rules scenario)) = claim_subset scenario"
    and f: "map flags (fst (apply_rules scenario)) =
       map (\<lambda>r. join '','' (triggered_rules (claim_subset scenario) r)) (claim_subset scenario)"
    using assessments_and_flags [of scenario] by blast+
  have "map customer_id (fst (apply_rules scenario)) =
        map customer_id (map policy.truncate (fst (apply_rules scenario)))"
    by (simp add: o_def policy.defs)
  also have "\<dots> = [1, 2, 3]"
    unfolding t by (simp add: claim_subset_scenario mk_policy_def)
  finally have ids: "map customer_id (fst (apply_rules scenario)) = [1, 2, 3]" .
  have "map (\<lambda>r. join '','' (triggered_rules (claim_subset scenario) r)) (claim_subset scenario) =
        map (join '','') (map (triggered_rules (claim_subset scenario)) (claim_subset scenario))"
    by (simp add: o_def)
  also have "\<dots> = [''extreme_loss_ratio'',
      ''extreme_loss_ratio,young_driver_extreme,premium_loss_mismatch'',
      ''new_car_high_loss'']"
    unfolding scenario_triggered by simp
  finally show ?thesis using ids f by simp
qed


subsection \<open>Degenerate bands, empty claim subsets, age bands\<close>

lemma band_threshold_small:
  "length (filter (\<lambda>x. age_group (age x) = Some b) cs) < 2 \<Longrightarrow> band_threshold cs b = None"
  by (cases "mean (band_losses cs b)") (simp_all add: band_threshold_def band_losses_def std_def)

lemma thresholds_lookup:
  assumes "r \<in> set (claim_subset df)" and "age_group (age r) = Some b"
  shows "map_of (age_group_thresholds (snd (snd (apply_rules df)))) b =
           Some (band_threshold (claim_subset df) b)"
proof -
  have "total_loss r \<in> set (band_losses (claim_subset df) b)"
    using assms by (auto simp: band_losses_def)
  then have "band_losses (claim_subset df) b \<noteq> []" by auto
  with assms(2) have "b \<in> set (filter (\<lambda>l. band_losses (claim_subset df) l \<noteq> []) labels)"
    by (simp add: age_group_in_labels)
  then show ?thesis
    by (simp add: apply_rules_rows map_of_tabulate)
qed

text \<open>
  Claim C6. In an age band that holds fewer than two claim records the standard
  deviation is NaN, so the band's threshold is NaN and rule 2 (\<open>statistical_outlier\<close>) is
  not flagged for any row of that band, whatever its \<open>total_loss\<close>; the engine returns
  its result as for any other input.
\<close>

theorem degenerate_band_never_outlier:
  assumes "a \<in> set (fst (apply_rules df))"
    and "age_group (age a) = Some b"
    and "length (filter (\<lambda>x. age_group (age x) = Some b) (claim_subset df)) < 2"
  shows "''statistical_outlier'' \<notin> set (flagged_rules a) \<and>
         map_of (age_group_thresholds (snd (snd (apply_rules df)))) b = Some None"
proof -
  from assms(1) obtain r where r: "r \<in> set (claim_subset df)"
    and a: "a = claim_row r (table_score (claim_subset df) r)
                  (join '','' (triggered_rules (claim_subset df) r))"
    by (rule apply_rules_row)
  have b: "age_group (age r) = Some b" using assms(2) by (simp add: a)
  have thr: "band_threshold (claim_subset df) b = None"
    using assms(3) by (rule band_threshold_small)
  have "\<not> table_predicate ''statistical_outlier'' (claim_subset df) r"
    by (simp add: table_predicate_engine b thr)
  then have "''statistical_outlier'' \<notin> set (flagged_rules a)"
    unfolding a flagged_rules_row by (simp add: triggered_rules_iff)
  moreover have "map_of (age_group_thresholds (snd (snd (apply_rules df)))) b = Some None"
    using thresholds_lookup[OF r b] thr by simp
  ultimately show ?thesis by simp
qed

lemma scenario_first_row:
  "fst (apply_rules scenario) ! 0 = claim_row (mk_policy 1 50 2010 1000 16000 16) 3 ''extreme_loss_ratio''"
proof -
  have "fst (apply_rules scenario) ! 0 =
        claim_row (mk_policy 1 50 2010 1000 16000 16)
          (map (table_score (claim_subset scenario)) (claim_subset scenario) ! 0)
          (join '','' (map (triggered_rules (claim_subset scenario)) (claim_subset scenario) ! 0))"
    by (simp add: apply_rules_rows claim_subset_scenario)
  then show ?thesis
    unfolding scenario_scores scenario_triggered by simp
qed

lemma scenario_length: "length (fst (apply_rules scenario)) = 3"
  by (simp add: apply_rules_rows claim_subset_scenario)

theorem degenerate_band_never_outlier_witness:
  "''statistical_outlier'' \<notin> set (flagged_rules (fst (apply_rules scenario) ! 0)) \<and>
   total_loss (fst (apply_rules scenario) ! 0) = 16000 \<and>
   map_of (age_group_thresholds (snd (snd (apply_rules scenario)))) ''45-54'' = Some None"
proof -
  have m: "fst (apply_rules scenario) ! 0 \<in> set (fst (apply_rules scenario))"
    by (rule nth_mem) (simp add: scenario_length)
  have g: "age_group (age (fst (apply_rules scenario) ! 0)) = Some ''45-54''"
    by (simp add: scenario_first_row mk_policy_def age_group_simps)
  have n: "length (filter (\<lambda>x. age_group (age x) = Some ''45-54'') (claim_subset scenario)) < 2"
    by (simp add: claim_subset_scenario mk_policy_def age_group_simps)
  have "total_loss (fst (apply_rules scenario) ! 0) = 16000"
    by (simp add: scenario_first_row mk_policy_def)
  with degenerate_band_never_outlier [OF m g n] show ?thesis by simp
qed

text \<open>
  Claim C5. When no record has \<open>total_loss > 0\<close> (in particular on the empty dataset) the
  engine returns: an empty frame, a count of zero for each of the five rules, NaN for
  \<open>loss_95\<close> and \<open>premium_25\<close>, and an empty mapping of age-band thresholds (no band has a
  value, and none is zero).
\<close>

theorem empty_claim_subset:
  assumes "claim_subset df = []"
  shows "apply_rules df =
     ([],
      [(''extreme_loss_ratio'', 0), (''statistical_outlier'', 0), (''new_car_high_loss'', 0),
       (''young_driver_extreme'', 0), (''premium_loss_mismatch'', 0)],
      \<lparr>loss_95_threshold = None, premium_25_threshold = None, age_group_thresholds = []\<rparr>)"
  by (simp add: apply_rules_rows assms RULE_DEFINITIONS_def quantile_def band_losses_def)

theorem empty_claim_subset_witness:
  "apply_rules [] =
     ([],
      [(''extreme_loss_ratio'', 0), (''statistical_outlier'', 0), (''new_car_high_loss'', 0),
       (''young_driver_extreme'', 0), (''premium_loss_mismatch'', 0)],
      \<lparr>loss_95_threshold = None, premium_25_threshold = None, age_group_thresholds = []\<rparr>) \<and>
   apply_rules [mk_policy 4 30 2000 1000 0 0] = apply_rules []"
proof -
  have e: "claim_subset [] = []" by (simp add: claim_subset_def)
  have n: "claim_subset [mk_policy 4 30 2000 1000 0 0] = []"
    by (simp add: claim_subset_def mk_policy_def)
  show ?thesis
    using empty_claim_subset [OF e] empty_claim_subset [OF n] by simp
qed

text \<open>
  Claim C8, as amended. \<^verbatim>\<open>pd.cut\<close> with the bins 0, 25, 35, 45, 55, 65, 200 and
  \<^verbatim>\<open>right=False\<close> gives every age from 0 to 199 exactly one of the six bands, each band
  closed below and open above (25 is in 25-34, 65 is in 65+); an age below 0 or of 200
  and more gets no band (NaN). The engine's \<^verbatim>\<open>age_group\<close> column is this function of
  the \<open>age\<close> of each claim record.
\<close>

theorem age_group_bands:
  "age_group a =
     (if a < 0 then None
      else if a < 25 then Some ''<25''
      else if a < 35 then Some ''25-34''
      else if a < 45 then Some ''35-44''
      else if a < 55 then Some ''45-54''
      else if a < 65 then Some ''55-64''
      else if a < 200 then Some ''65+''
      else None) \<and>
   age_group_col (init_claims df) = map (\<lambda>r. age_group (age r)) (claim_subset df)"
  by (simp add: age_group_def bins_def labels_def age_group_col_def init_claims_rows o_def)

theorem age_group_bands_witness:
  "age_group 24 = Some ''<25'' \<and> age_group 25 = Some ''25-34'' \<and>
   age_group 64 = Some ''55-64'' \<and> age_group 65 = Some ''65+'' \<and>
   age_group 0 = Some ''<25'' \<and> age_group 199 = Some ''65+'' \<and>
   age_group_col (init_claims scenario) = [Some ''45-54'', Some ''<25'', Some ''35-44'']"
  using age_group_bands [of 24 scenario] age_group_bands [of 25 scenario]
    age_group_bands [of 64 scenario] age_group_bands [of 65 scenario]
    age_group_bands [of 0 scenario] age_group_bands [of 199 scenario]
  by (simp add: claim_subset_scenario mk_policy_def age_group_simps)

text \<open>
  The claim as stated fails: age 200 is at least 65 and is not in the band 65+, and age
  -1 is below 25 and is not in the band <25.
\<close>

theorem age_group_unbounded_counterexample:
  "(65::int) \<le> 200 \<and> age_group 200 \<noteq> Some ''65+'' \<and>
   (-1::int) < 25 \<and> age_group (-1) \<noteq> Some ''<25''"
  by (simp add: age_group_def bins_def labels_def)


subsection \<open>The percentile cutoffs\<close>









subsection \<open>The loss ratio of rule 1 and non-positive premiums\<close>

lemma flagged_rule1_iff:
  assumes "a \<in> set (fst (apply_rules df))"
  shows "''extreme_loss_ratio'' \<in> set (flagged_rules a) \<longleftrightarrow> loss_ratio a > 15"
proof -
  from assms obtain r where r: "r \<in> set (claim_subset df)"
    and a: "a = claim_row r (table_score (claim_subset df) r)
                  (join '','' (triggered_rules (claim_subset df) r))"
    by (rule apply_rules_row)
  show ?thesis
    unfolding a flagged_rules_row
    by (simp add: triggered_rules_iff RULE_DEFINITIONS_def table_predicate_engine)
qed

lemma generated_loss_ratio_nonpos: "p \<le> 0 \<Longrightarrow> generated_loss_ratio p l = 0"
  by (simp add: generated_loss_ratio_def np_round_def rint_def)

text \<open>
  Claim C3, as amended. Rule 1 compares the \<open>loss_ratio\<close> column stored in the input with
  15; the engine reads that column and does not recompute it. For a row whose stored
  ratio is \<open>total_loss / annual_premium\<close> when \<open>annual_premium > 0\<close> and 0 otherwise, the
  rule's outcome is the one that derived ratio gives.
\<close>

theorem rule1_reads_stored_loss_ratio:
  "mask_extreme_loss_ratio (init_claims df) = map (\<lambda>r. loss_ratio r > 15) (claim_subset df) \<and>
   (\<forall>a\<in>set (fst (apply_rules df)).
      (''extreme_loss_ratio'' \<in> set (flagged_rules a) \<longleftrightarrow> loss_ratio a > 15) \<and>
      (loss_ratio a = (if annual_premium a > 0 then total_loss a / annual_premium a else 0) \<longrightarrow>
         (''extreme_loss_ratio'' \<in> set (flagged_rules a) \<longleftrightarrow>
            annual_premium a > 0 \<and> total_loss a / annual_premium a > 15)))"
proof (intro conjI ballI impI)
  show "mask_extreme_loss_ratio (init_claims df) = map (\<lambda>r. loss_ratio r > 15) (claim_subset df)"
    by (simp add: mask_extreme_loss_ratio_def init_claims_rows o_def)
next
  fix a assume a: "a \<in> set (fst (apply_rules df))"
  show "''extreme_loss_ratio'' \<in> set (flagged_rules a) \<longleftrightarrow> loss_ratio a > 15"
    using a by (rule flagged_rule1_iff)
  assume "loss_ratio a = (if annual_premium a > 0 then total_loss a / annual_premium a else 0)"
  then show "''extreme_loss_ratio'' \<in> set (flagged_rules a) \<longleftrightarrow>
            annual_premium a > 0 \<and> total_loss a / annual_premium a > 15"
    using flagged_rule1_iff[OF a] by (simp split: if_splits)
qed

theorem rule1_reads_stored_loss_ratio_witness:
  "loss_ratio (fst (apply_rules scenario) ! 0) =
     total_loss (fst (apply_rules scenario) ! 0) / annual_premium (fst (apply_rules scenario) ! 0) \<and>
   ''extreme_loss_ratio'' \<in> set (flagged_rules (fst (apply_rules scenario) ! 0))"
proof -
  let ?a = "fst (apply_rules scenario) ! 0"
  have m: "?a \<in> set (fst (apply_rules scenario))"
    by (rule nth_mem) (simp add: scenario_length)
  have v: "loss_ratio ?a = 16" "total_loss ?a = 16000" "annual_premium ?a = 1000"
    by (simp_all add: scenario_first_row mk_policy_def)
  from rule1_reads_stored_loss_ratio [of scenario] m
  have "loss_ratio ?a = (if annual_premium ?a > 0 then total_loss ?a / annual_premium ?a else 0) \<longrightarrow>
         (''extreme_loss_ratio'' \<in> set (flagged_rules ?a) \<longleftrightarrow>
            annual_premium ?a > 0 \<and> total_loss ?a / annual_premium ?a > 15)"
    by blast
  then show ?thesis by (simp add: v)
qed

lemma single_record_triggered:
  "triggered_rules [r] r =
     (if loss_ratio r > 15 then [''extreme_loss_ratio''] else []) @
     (if car_model_year r \<ge> 2022 \<and> total_loss r > 10000 then [''new_car_high_loss''] else []) @
     (if age r < 25 \<and> total_loss r > 15000 then [''young_driver_extreme''] else []) @
     [''premium_loss_mismatch'']"
proof -
  have "band_threshold [r] b = None" for b
    by (rule band_threshold_small) simp
  then have "\<not> table_predicate ''statistical_outlier'' [r] r"
    by (simp add: table_predicate_engine split: option.splits)
  moreover have "table_predicate ''premium_loss_mismatch'' [r] r"
    by (simp add: table_predicate_engine quantile_def)
  ultimately show ?thesis
    by (simp add: triggered_rules_unfold) (simp add: table_predicate_engine)
qed

lemma single_record_flagged:
  "total_loss r > 0 \<Longrightarrow> map flagged_rules (fst (apply_rules [r])) = [triggered_rules [r] r]"
  by (simp add: apply_rules_rows claim_subset_def flagged_rules_row)

lemma rounded_record_ratio: "generated_loss_ratio 1000 (1500004 / 100) = 15"
  by (simp add: generated_loss_ratio_def np_round_def rint_def)

lemma rounded_record_fields:
  "annual_premium rounded_record = 1000"
  "total_loss rounded_record = 1500004 / 100"
  "loss_ratio rounded_record = 15"
  "car_model_year rounded_record = 2010"
  "age rounded_record = 40"
  unfolding rounded_record_def rounded_record_ratio by (simp_all add: mk_policy_def)

text \<open>
  The claim as stated fails on a record the generator can write: with premium 1000.00
  and loss 15000.04 the true ratio exceeds 15, the stored ratio is rounded to 15, and
  rule 1 is not flagged (only rule 5 is, as for every single-record claim subset).
\<close>

theorem rule1_drift_counterexample:
  "annual_premium rounded_record > 0 \<and>
   total_loss rounded_record / annual_premium rounded_record > 15 \<and>
   loss_ratio rounded_record =
     generated_loss_ratio (annual_premium rounded_record) (total_loss rounded_record) \<and>
   loss_ratio rounded_record \<noteq> total_loss rounded_record / annual_premium rounded_record \<and>
   map flagged_rules (fst (apply_rules [rounded_record])) = [[''premium_loss_mismatch'']]"
proof -
  have "total_loss rounded_record > 0" by (simp add: rounded_record_fields)
  then have "map flagged_rules (fst (apply_rules [rounded_record])) =
             [triggered_rules [rounded_record] rounded_record]"
    by (rule single_record_flagged)
  also have "\<dots> = [[''premium_loss_mismatch'']]"
    by (simp add: single_record_triggered rounded_record_fields)
  finally have f: "map flagged_rules (fst (apply_rules [rounded_record])) =
                   [[''premium_loss_mismatch'']]" .
  have g: "loss_ratio rounded_record =
     generated_loss_ratio (annual_premium rounded_record) (total_loss rounded_record)"
    unfolding rounded_record_fields rounded_record_ratio by (rule refl)
  have "annual_premium rounded_record > 0"
    and "total_loss rounded_record / annual_premium rounded_record > 15"
    and "loss_ratio rounded_record \<noteq> total_loss rounded_record / annual_premium rounded_record"
    by (simp_all add: rounded_record_fields)
  with f g show ?thesis by blast
qed

text \<open>
  Claim C4, as amended. The engine has no validation of \<open>annual_premium\<close> and no skip
  policy: for a claim row with \<open>annual_premium \<le> 0\<close> it returns an assessment like for any
  other row, rule 1 is flagged exactly when the stored \<open>loss_ratio\<close> exceeds 15, and the
  five rules are flagged exactly when their table predicates hold. When the stored
  ratio is the generator's (0 for a non-positive premium), rule 1 is not flagged.
\<close>

theorem nonpositive_premium_rule1:
  assumes "a \<in> set (fst (apply_rules df))" and "annual_premium a \<le> 0"
  shows "map policy.truncate (fst (apply_rules df)) = claim_subset df \<and>
     (''extreme_loss_ratio'' \<in> set (flagged_rules a) \<longleftrightarrow> loss_ratio a > 15) \<and>
     (loss_ratio a = generated_loss_ratio (annual_premium a) (total_loss a) \<longrightarrow>
        ''extreme_loss_ratio'' \<notin> set (flagged_rules a)) \<and>
     (\<forall>rule\<in>set (map fst RULE_DEFINITIONS).
        rule \<in> set (flagged_rules a) \<longleftrightarrow>
          table_predicate rule (claim_subset df) (policy.truncate a)) \<and>
     risk_score a = table_score (claim_subset df) (policy.truncate a)"
proof -
  from assms(1) obtain r where r: "r \<in> set (claim_subset df)"
    and a: "a = claim_row r (table_score (claim_subset df) r)
                  (join '','' (triggered_rules (claim_subset df) r))"
    by (rule apply_rules_row)
  have t: "policy.truncate a = r" by (simp add: a)
  have 1: "map policy.truncate (fst (apply_rules df)) = claim_subset df"
    by (simp add: apply_rules_rows o_def)
  have 2: "''extreme_loss_ratio'' \<in> set (flagged_rules a) \<longleftrightarrow> loss_ratio a > 15"
    using assms(1) by (rule flagged_rule1_iff)
  have 3: "loss_ratio a = generated_loss_ratio (annual_premium a) (total_loss a) \<longrightarrow>
        ''extreme_loss_ratio'' \<notin> set (flagged_rules a)"
    using 2 assms(2) by (simp add: generated_loss_ratio_nonpos)
  have 4: "\<forall>rule\<in>set (map fst RULE_DEFINITIONS).
        rule \<in> set (flagged_rules a) \<longleftrightarrow>
          table_predicate rule (claim_subset df) (policy.truncate a)"
    unfolding t unfolding a flagged_rules_row using triggered_rules_iff by blast
  have 5: "risk_score a = table_score (claim_subset df) (policy.truncate a)"
    unfolding t by (simp add: a)
  from 1 2 3 4 5 show ?thesis by blast
qed

lemma single_record_rows:
  "total_loss r > 0 \<Longrightarrow>
   fst (apply_rules [r]) = [claim_row r (table_score [r] r) (join '','' (triggered_rules [r] r))]"
  by (simp add: apply_rules_rows claim_subset_def)

theorem nonpositive_premium_rule1_witness:
  "annual_premium (fst (apply_rules [zero_premium_generated]) ! 0) \<le> 0 \<and>
   ''extreme_loss_ratio'' \<notin> set (flagged_rules (fst (apply_rules [zero_premium_generated]) ! 0)) \<and>
   map policy.truncate (fst (apply_rules [zero_premium_generated])) = [zero_premium_generated]"
proof -
  let ?a = "fst (apply_rules [zero_premium_generated]) ! 0"
  have pos: "total_loss zero_premium_generated > 0"
    by (simp add: zero_premium_generated_def mk_policy_def)
  have rows: "fst (apply_rules [zero_premium_generated]) =
     [claim_row zero_premium_generated (table_score [zero_premium_generated] zero_premium_generated)
        (join '','' (triggered_rules [zero_premium_generated] zero_premium_generated))]"
    using pos by (rule single_record_rows)
  have m: "?a \<in> set (fst (apply_rules [zero_premium_generated]))"
    by (simp add: rows)
  have p: "annual_premium ?a \<le> 0"
    by (simp add: rows) (simp add: zero_premium_generated_def mk_policy_def)
  have g: "loss_ratio ?a = generated_loss_ratio (annual_premium ?a) (total_loss ?a)"
    by (simp add: rows) (simp add: zero_premium_generated_def mk_policy_def)
  have c: "claim_subset [zero_premium_generated] = [zero_premium_generated]"
    using pos by (simp add: claim_subset_def)
  from nonpositive_premium_rule1 [OF m p]
  have t: "map policy.truncate (fst (apply_rules [zero_premium_generated])) =
           claim_subset [zero_premium_generated]"
    and i: "loss_ratio ?a = generated_loss_ratio (annual_premium ?a) (total_loss ?a) \<longrightarrow>
            ''extreme_loss_ratio'' \<notin> set (flagged_rules ?a)"
    by blast+
  from i g have "''extreme_loss_ratio'' \<notin> set (flagged_rules ?a)" by blast
  with p t c show ?thesis by simp
qed

text \<open>
  The claim as stated fails: on a claim record with premium 0 and a stored ratio of 20
  the engine returns an assessment (it does not fail) in which rule 1 is flagged (the
  record is not skipped).
\<close>

theorem nonpositive_premium_counterexample:
  "annual_premium zero_premium_record \<le> 0 \<and> total_loss zero_premium_record > 0 \<and>
   map flags (fst (apply_rules [zero_premium_record])) =
     [''extreme_loss_ratio,premium_loss_mismatch''] \<and>
   map risk_score (fst (apply_rules [zero_premium_record])) = [4]"
proof -
  have pos: "total_loss zero_premium_record > 0"
    by (simp add: zero_premium_record_def mk_policy_def)
  have t: "triggered_rules [zero_premium_record] zero_premium_record =
           [''extreme_loss_ratio'', ''premium_loss_mismatch'']"
    by (simp add: single_record_triggered) (simp add: zero_premium_record_def mk_policy_def)
  have f: "flags (claim_row r s f) = f" for r s f by simp
  have s: "table_score [zero_premium_record] zero_premium_record = 4"
    using t by (simp add: table_score_def triggered_rules_def RULE_DEFINITIONS_def split: if_splits)
  show ?thesis
    using pos by (simp add: single_record_rows t s) (simp add: zero_premium_record_def mk_policy_def)
qed


subsection \<open>The risk score\<close>










subsection \<open>The effects of a run\<close>

lemma select_map: "select (map P xs) xs = filter P xs"
  by (induction xs) (simp_all add: select_def)

lemma put_frame_simps [simp]:
  "heap (put_frame p f w) p = Some f"
  "q \<noteq> p \<Longrightarrow> heap (put_frame p f w) q = heap w q"
  "next_ref (put_frame p f w) = next_ref w"
  "rule_definitions (put_frame p f w) = rule_definitions w"
  "stdout (put_frame p f w) = stdout w"
  "put_frame p f (put_frame p g w) = put_frame p f w"
  by (simp_all add: put_frame_def)

lemma update_object_put:
  "heap w p = Some f \<Longrightarrow> operation f = Some f' \<Longrightarrow>
   update_object p operation w = Some (put_frame p f' w)"
  by (simp add: update_object_def put_frame_def)

lemma claims_frame_fields [simp]:
  "policy_rows (claims_frame cs sc fl ag ot) = cs"
  "risk_score_column (claims_frame cs sc fl ag ot) = Some (map sc cs)"
  "flags_column (claims_frame cs sc fl ag ot) = Some (map fl cs)"
  "age_group_column (claims_frame cs sc fl ag ot) = ag"
  "outlier_threshold_column (claims_frame cs sc fl ag ot) = ot"
  by (simp_all add: claims_frame_def)

lemma loc_add_risk_score_frame:
  "loc_add_risk_score (map P cs) v (claims_frame cs sc fl ag ot) =
     Some (claims_frame cs (\<lambda>r. if P r then sc r + v else sc r) fl ag ot)"
  by (simp add: loc_add_risk_score_def claims_frame_def map2_same)

lemma loc_add_flags_frame:
  "loc_add_flags_column (map P cs) s (claims_frame cs sc fl ag ot) =
     Some (claims_frame cs sc (\<lambda>r. if P r then fl r @ s else fl r) ag ot)"
  by (simp add: loc_add_flags_column_def claims_frame_def map2_same)

lemma rule_update_frame:
  assumes "heap w c = Some (claims_frame cs sc fl ag ot)"
    and "map_of (rule_definitions w) rule = Some (label, v)"
  shows "rule_update c rule (map P cs) (w, fc) =
     Some (put_frame c
             (claims_frame cs (\<lambda>r. if P r then sc r + v else sc r)
                (\<lambda>r. if P r then fl r @ rule @ '','' else fl r) ag ot) w,
           dict_set rule (length (filter P cs)) fc)"
proof -
  let ?f1 = "claims_frame cs (\<lambda>r. if P r then sc r + v else sc r) fl ag ot"
  let ?f2 = "claims_frame cs (\<lambda>r. if P r then sc r + v else sc r)
               (\<lambda>r. if P r then fl r @ rule @ '','' else fl r) ag ot"
  have 1: "update_object c (loc_add_risk_score (map P cs) v) w = Some (put_frame c ?f1 w)"
    by (simp add: update_object_def put_frame_def assms(1) loc_add_risk_score_frame)
  have 2: "update_object c (loc_add_flags_column (map P cs) (rule @ '','')) (put_frame c ?f1 w) =
           Some (put_frame c ?f2 w)"
    by (simp add: update_object_def put_frame_def loc_add_flags_frame)
  show ?thesis
    unfolding rule_update_def
    by (simp only: fst_conv snd_conv assms(2) Option.bind.bind_lunit 1 2 mask_sum_map)
qed

lemma rule_entries:
  "map_of RULE_DEFINITIONS ''extreme_loss_ratio'' = Some (''Extreme Loss Ratio (>15x)'', 3)"
  "map_of RULE_DEFINITIONS ''statistical_outlier'' =
     Some (''Statistical Outlier (>mean+3*std by age group)'', 2)"
  "map_of RULE_DEFINITIONS ''new_car_high_loss'' = Some (''New Car (>=2022), High Loss (>$10k)'', 2)"
  "map_of RULE_DEFINITIONS ''young_driver_extreme'' =
     Some (''Young Driver (<25), Extreme Claim (>$15k)'', 2)"
  "map_of RULE_DEFINITIONS ''premium_loss_mismatch'' =
     Some (''Premium-Loss Mismatch (top 5% loss, bottom 25% premium)'', 1)"
  by (simp_all add: RULE_DEFINITIONS_def)

lemma rule1_run_frame:
  assumes "heap w c = Some (claims_frame cs sc fl ag ot)"
    and "rule_definitions w = RULE_DEFINITIONS"
  shows "rule1_run c (w, fc) =
     Some (put_frame c
             (claims_frame cs
                (\<lambda>r. if table_predicate ''extreme_loss_ratio'' cs r then sc r + 3 else sc r)
                (\<lambda>r. if table_predicate ''extreme_loss_ratio'' cs r
                      then fl r @ ''extreme_loss_ratio'' @ '','' else fl r) ag ot) w,
           dict_set ''extreme_loss_ratio''
             (length (filter (table_predicate ''extreme_loss_ratio'' cs) cs)) fc)"
proof -
  have m: "map (\<lambda>x. x > 15) (map loss_ratio cs) = map (table_predicate ''extreme_loss_ratio'' cs) cs"
    by (simp add: table_predicate_engine)
  have e: "map_of (rule_definitions w) ''extreme_loss_ratio'' = Some (''Extreme Loss Ratio (>15x)'', 3)"
    by (simp only: assms(2) rule_entries)
  show ?thesis
    unfolding rule1_run_def
    by (simp only: fst_conv snd_conv assms(1) Option.bind.bind_lunit claims_frame_fields m
        rule_update_frame[OF assms(1) e])
qed

lemma rule3_run_frame:
  assumes "heap w c = Some (claims_frame cs sc fl ag ot)"
    and "rule_definitions w = RULE_DEFINITIONS"
  shows "rule3_run c (w, fc) =
     Some (put_frame c
             (claims_frame cs
                (\<lambda>r. if table_predicate ''new_car_high_loss'' cs r then sc r + 2 else sc r)
                (\<lambda>r. if table_predicate ''new_car_high_loss'' cs r
                      then fl r @ ''new_car_high_loss'' @ '','' else fl r) ag ot) w,
           dict_set ''new_car_high_loss''
             (length (filter (table_predicate ''new_car_high_loss'' cs) cs)) fc)"
proof -
  have m: "map2 (\<and>) (map (\<lambda>y. y \<ge> 2022) (map car_model_year cs))
                     (map (\<lambda>x. x > 10000) (map total_loss cs)) =
           map (table_predicate ''new_car_high_loss'' cs) cs"
    by (simp add: table_predicate_engine map2_same)
  have e: "map_of (rule_definitions w) ''new_car_high_loss'' =
           Some (''New Car (>=2022), High Loss (>$10k)'', 2)"
    by (simp only: assms(2) rule_entries)
  show ?thesis
    unfolding rule3_run_def
    by (simp only: fst_conv snd_conv assms(1) Option.bind.bind_lunit claims_frame_fields m
        rule_update_frame[OF assms(1) e])
qed

lemma rule4_run_frame:
  assumes "heap w c = Some (claims_frame cs sc fl ag ot)"
    and "rule_definitions w = RULE_DEFINITIONS"
  shows "rule4_run c (w, fc) =
     Some (put_frame c
             (claims_frame cs
                (\<lambda>r. if table_predicate ''young_driver_extreme'' cs r then sc r + 2 else sc r)
                (\<lambda>r. if table_predicate ''young_driver_extreme'' cs r
                      then fl r @ ''young_driver_extreme'' @ '','' else fl r) ag ot) w,
           dict_set ''young_driver_extreme''
             (length (filter (table_predicate ''young_driver_extreme'' cs) cs)) fc)"
proof -
  have m: "map2 (\<and>) (map (\<lambda>a. a < 25) (map age cs))
                     (map (\<lambda>x. x > 15000) (map total_loss cs)) =
           map (table_predicate ''young_driver_extreme'' cs) cs"
    by (simp add: table_predicate_engine map2_same)
  have e: "map_of (rule_definitions w) ''young_driver_extreme'' =
           Some (''Young Driver (<25), Extreme Claim (>$15k)'', 2)"
    by (simp only: assms(2) rule_entries)
  show ?thesis
    unfolding rule4_run_def
    by (simp only: fst_conv snd_conv assms(1) Option.bind.bind_lunit claims_frame_fields m
        rule_update_frame[OF assms(1) e])
qed

lemma rule5_run_frame:
  assumes "heap w c = Some (claims_frame cs sc fl ag ot)"
    and "rule_definitions w = RULE_DEFINITIONS"
  shows "rule5_run c (w, fc) =
     Some ((put_frame c
             (claims_frame cs
                (\<lambda>r. if table_predicate ''premium_loss_mismatch'' cs r then sc r + 1 else sc r)
                (\<lambda>r. if table_predicate ''premium_loss_mismatch'' cs r
                      then fl r @ ''premium_loss_mismatch'' @ '','' else fl r) ag ot) w,
           dict_set ''premium_loss_mismatch''
             (length (filter (table_predicate ''premium_loss_mismatch'' cs) cs)) fc),
          quantile (95 / 100) (map total_loss cs), quantile (25 / 100) (map annual_premium cs))"
proof -
  have m: "map2 (\<and>) (map (\<lambda>x. nan_ge x (quantile (95 / 100) (map total_loss cs))) (map total_loss cs))
                     (map (\<lambda>p. nan_le p (quantile (25 / 100) (map annual_premium cs)))
                        (map annual_premium cs)) =
           map (table_predicate ''premium_loss_mismatch'' cs) cs"
    unfolding table_predicate_engine by (simp add: map2_same)
  have e: "map_of (rule_definitions w) ''premium_loss_mismatch'' =
           Some (''Premium-Loss Mismatch (top 5% loss, bottom 25% premium)'', 1)"
    by (simp only: assms(2) rule_entries)
  show ?thesis
    unfolding rule5_run_def Let_def
    by (simp only: assms(1) claims_frame_fields m rule_update_frame[OF assms(1) e]
        Option.bind.bind_lunit fst_conv snd_conv)
qed


lemma group_thresholds_columns:
  "map (\<lambda>(l, m, s). (l, nan_add m (nan_scale 3 s)))
     (map (\<lambda>(l, vs). (l, mean vs, std vs))
        (groupby_observed (map age_group (map age cs)) (map total_loss cs))) =
   map (\<lambda>l. (l, band_threshold cs l)) (filter (\<lambda>l. band_losses cs l \<noteq> []) labels)"
  by (simp add: groupby_observed_def o_def group_values_band band_threshold_def)

lemma outlier_mask_columns:
  "map2 nan_gt (map total_loss cs)
     (map (map_series (map (\<lambda>l. (l, band_threshold cs l))
                         (filter (\<lambda>l. band_losses cs l \<noteq> []) labels)))
        (map age_group (map age cs))) =
   map (table_predicate ''statistical_outlier'' cs) cs"
proof -
  let ?thr = "map (\<lambda>l. (l, band_threshold cs l)) (filter (\<lambda>l. band_losses cs l \<noteq> []) labels)"
  have "map2 nan_gt (map total_loss cs) (map (map_series ?thr) (map age_group (map age cs))) =
        map (\<lambda>r. nan_gt (total_loss r) (map_series ?thr (age_group (age r)))) cs"
    by (simp add: map2_same o_def)
  also have "\<dots> = map (table_predicate ''statistical_outlier'' cs) cs"
    by (rule map_cong) (auto simp: map_series_band table_predicate_engine split: option.splits)
  finally show ?thesis .
qed

lemma rule2_run_frame:
  assumes "heap w c = Some (claims_frame cs sc fl ag ot)"
    and "rule_definitions w = RULE_DEFINITIONS"
  shows "rule2_run c (w, fc) =
     Some ((put_frame c
             (claims_frame cs
                (\<lambda>r. if table_predicate ''statistical_outlier'' cs r then sc r + 2 else sc r)
                (\<lambda>r. if table_predicate ''statistical_outlier'' cs r
                      then fl r @ ''statistical_outlier'' @ '','' else fl r)
                (Some (map age_group (map age cs)))
                (Some (map (map_series (map (\<lambda>l. (l, band_threshold cs l))
                                          (filter (\<lambda>l. band_losses cs l \<noteq> []) labels)))
                         (map age_group (map age cs))))) w,
           dict_set ''statistical_outlier''
             (length (filter (table_predicate ''statistical_outlier'' cs) cs)) fc),
          map (\<lambda>l. (l, band_threshold cs l)) (filter (\<lambda>l. band_losses cs l \<noteq> []) labels))"
proof -
  let ?keys = "map age_group (map age cs)"
  let ?thr = "map (\<lambda>l. (l, band_threshold cs l)) (filter (\<lambda>l. band_losses cs l \<noteq> []) labels)"
  let ?fa = "claims_frame cs sc fl (Some ?keys) ot"
  let ?fo = "claims_frame cs sc fl (Some ?keys) (Some (map (map_series ?thr) ?keys))"
  have 1: "update_object c (setitem_age_group ?keys) w = Some (put_frame c ?fa w)"
    by (simp add: update_object_def put_frame_def assms(1) setitem_age_group_def claims_frame_def)
  have 2: "update_object c (setitem_outlier_threshold (map (map_series ?thr) ?keys))
             (put_frame c ?fa w) = Some (put_frame c ?fo w)"
    by (simp add: update_object_def put_frame_def setitem_outlier_threshold_def claims_frame_def)
  have e: "map_of (rule_definitions (put_frame c ?fo w)) ''statistical_outlier'' =
           Some (''Statistical Outlier (>mean+3*std by age group)'', 2)"
    by (simp add: assms(2) rule_entries)
  have h: "heap (put_frame c ?fo w) c = Some ?fo" by simp
  have 3: "rule_update c ''statistical_outlier''
             (map (table_predicate ''statistical_outlier'' cs) cs) (put_frame c ?fo w, fc) =
           Some (put_frame c
             (claims_frame cs
                (\<lambda>r. if table_predicate ''statistical_outlier'' cs r then sc r + 2 else sc r)
                (\<lambda>r. if table_predicate ''statistical_outlier'' cs r
                      then fl r @ ''statistical_outlier'' @ '','' else fl r)
                (Some ?keys) (Some (map (map_series ?thr) ?keys))) w,
              dict_set ''statistical_outlier''
                (length (filter (table_predicate ''statistical_outlier'' cs) cs)) fc)"
    using rule_update_frame[OF h e] by simp
  show ?thesis
    unfolding rule2_run_def Let_def
    by (simp only: fst_conv snd_conv assms(1) Option.bind.bind_lunit claims_frame_fields
        1 2 3 put_frame_simps group_thresholds_columns outlier_mask_columns)
qed


lemma print_fields [simp]:
  "heap (print s w) = heap w"
  "next_ref (print s w) = next_ref w"
  "rule_definitions (print s w) = rule_definitions w"
  "stdout (print s w) = stdout w @ s @ [CHR 0x0A]"
  by (simp_all add: print_def)

lemma claim_mask: "map (\<lambda>x. x > 0) (map total_loss rows) = map (\<lambda>r. total_loss r > 0) rows"
  by (simp add: o_def)

lemma boolean_index_claims:
  "policy_rows (boolean_index (map (\<lambda>x. x > 0) (map total_loss (policy_rows d))) d) =
     claim_subset (policy_rows d)"
  unfolding claim_mask boolean_index_def by (simp add: select_map claim_subset_def)

lemma initial_columns:
  assumes "policy_rows f = cs"
  shows "f\<lparr>risk_score_column := Some (replicate (length cs) 0),
           flags_column := Some (replicate (length cs) [])\<rparr> =
         claims_frame cs (\<lambda>r. 0) (\<lambda>r. []) (age_group_column f) (outlier_threshold_column f)"
  using assms by (simp add: claims_frame_def map_replicate_const)

text \<open>The result and the world after a run, statement by statement.\<close>

lemma apply_rules_run_world:
  assumes d: "heap w df = Some d"
    and rd: "rule_definitions w = RULE_DEFINITIONS"
  shows "apply_rules_run df w =
     Some ((next_ref w, snd (apply_rules (policy_rows d))),
           put_frame (next_ref w)
             \<lparr>policy_rows = claim_subset (policy_rows d),
              risk_score_column = Some (map risk_score (fst (apply_rules (policy_rows d)))),
              flags_column = Some (map flags (fst (apply_rules (policy_rows d)))),
              age_group_column = None, outlier_threshold_column = None\<rparr>
             (print (''Customers with claims (total_loss > 0): ''
                      @ format_thousands (length (claim_subset (policy_rows d))) @ [CHR 0x0A])
                (w\<lparr>heap := (heap w)(next_ref w \<mapsto>
                         boolean_index (map (\<lambda>x. x > 0) (map total_loss (policy_rows d))) d),
                    next_ref := Suc (next_ref w)\<rparr>)))"
proof -
  define c where "c = next_ref w"
  define cs where "cs = claim_subset (policy_rows d)"
  define f0 where "f0 = boolean_index (map (\<lambda>x. x > 0) (map total_loss (policy_rows d))) d"
  define w1 where "w1 = w\<lparr>heap := (heap w)(c \<mapsto> f0), next_ref := Suc c\<rparr>"
  define line where "line = ''Customers with claims (total_loss > 0): ''
                      @ format_thousands (length cs) @ [CHR 0x0A]"
  define w2 where "w2 = print line w1"
  define ag0 where "ag0 = age_group_column f0"
  define ot0 where "ot0 = outlier_threshold_column f0"
  define keys where "keys = map age_group (map age cs)"
  define thr where "thr = map (\<lambda>l. (l, band_threshold cs l)) (filter (\<lambda>l. band_losses cs l \<noteq> []) labels)"
  define ot where "ot = map (map_series thr) keys"
  define P1 where "P1 = table_predicate ''extreme_loss_ratio'' cs"
  define P2 where "P2 = table_predicate ''statistical_outlier'' cs"
  define P3 where "P3 = table_predicate ''new_car_high_loss'' cs"
  define P4 where "P4 = table_predicate ''young_driver_extreme'' cs"
  define P5 where "P5 = table_predicate ''premium_loss_mismatch'' cs"
  define sc1 where "sc1 = (\<lambda>r. if P1 r then (0::int) + 3 else 0)"
  define sc2 where "sc2 = (\<lambda>r. if P2 r then sc1 r + 2 else sc1 r)"
  define sc3 where "sc3 = (\<lambda>r. if P3 r then sc2 r + 2 else sc2 r)"
  define sc4 where "sc4 = (\<lambda>r. if P4 r then sc3 r + 2 else sc3 r)"
  define sc5 where "sc5 = (\<lambda>r. if P5 r then sc4 r + 1 else sc4 r)"
  define fl1 where "fl1 = (\<lambda>r. if P1 r then [] @ ''extreme_loss_ratio'' @ '','' else [])"
  define fl2 where "fl2 = (\<lambda>r. if P2 r then fl1 r @ ''statistical_outlier'' @ '','' else fl1 r)"
  define fl3 where "fl3 = (\<lambda>r. if P3 r then fl2 r @ ''new_car_high_loss'' @ '','' else fl2 r)"
  define fl4 where "fl4 = (\<lambda>r. if P4 r then fl3 r @ ''young_driver_extreme'' @ '','' else fl3 r)"
  define fl5 where "fl5 = (\<lambda>r. if P5 r then fl4 r @ ''premium_loss_mismatch'' @ '','' else fl4 r)"
  define fc1 where "fc1 = dict_set ''extreme_loss_ratio'' (length (filter P1 cs)) []"
  define fc2 where "fc2 = dict_set ''statistical_outlier'' (length (filter P2 cs)) fc1"
  define fc3 where "fc3 = dict_set ''new_car_high_loss'' (length (filter P3 cs)) fc2"
  define fc4 where "fc4 = dict_set ''young_driver_extreme'' (length (filter P4 cs)) fc3"
  define fc5 where "fc5 = dict_set ''premium_loss_mismatch'' (length (filter P5 cs)) fc4"
  define l95 where "l95 = quantile (95 / 100) (map total_loss cs)"
  define p25 where "p25 = quantile (25 / 100) (map annual_premium cs)"
  define w' where "w' = put_frame c (claims_frame cs sc5 (\<lambda>r. rstrip '','' (fl5 r)) None None) w2"

  have new: "new_object f0 w = (c, w1)"
    by (simp add: new_object_def c_def w1_def)
  have rows0: "policy_rows f0 = cs"
    unfolding f0_def cs_def by (rule boolean_index_claims)
  have h1: "heap w1 c = Some f0"
    by (simp add: w1_def)
  have h2: "heap w2 c = Some f0"
    by (simp add: w2_def h1)
  have rd2: "rule_definitions w2 = RULE_DEFINITIONS"
    by (simp add: w2_def w1_def rd)
  have rdp: "rule_definitions (put_frame c f w2) = RULE_DEFINITIONS" for f
    by (simp add: rd2)

  have s1: "update_object c (setitem_risk_score 0) w2 =
            Some (put_frame c (f0\<lparr>risk_score_column := Some (replicate (length cs) 0)\<rparr>) w2)"
    by (simp add: update_object_def put_frame_def h2 setitem_risk_score_def rows0)
  have s2: "update_object c (setitem_flags [])
              (put_frame c (f0\<lparr>risk_score_column := Some (replicate (length cs) 0)\<rparr>) w2) =
            Some (put_frame c (claims_frame cs (\<lambda>r. 0) (\<lambda>r. []) ag0 ot0) w2)"
    by (simp add: update_object_def put_frame_def setitem_flags_def rows0
        initial_columns[OF rows0, symmetric] ag0_def ot0_def)
  have r1: "rule1_run c (put_frame c (claims_frame cs (\<lambda>r. 0) (\<lambda>r. []) ag0 ot0) w2, []) =
            Some (put_frame c (claims_frame cs sc1 fl1 ag0 ot0) w2, fc1)"
    by (simp add: rule1_run_frame[OF put_frame_simps(1) rdp] sc1_def fl1_def fc1_def P1_def)
  have r2: "rule2_run c (put_frame c (claims_frame cs sc1 fl1 ag0 ot0) w2, fc1) =
            Some ((put_frame c (claims_frame cs sc2 fl2 (Some keys) (Some ot)) w2, fc2), thr)"
    by (simp add: rule2_run_frame[OF put_frame_simps(1) rdp] sc2_def fl2_def fc2_def P2_def keys_def thr_def ot_def)
  have r3: "rule3_run c (put_frame c (claims_frame cs sc2 fl2 (Some keys) (Some ot)) w2, fc2) =
            Some (put_frame c (claims_frame cs sc3 fl3 (Some keys) (Some ot)) w2, fc3)"
    by (simp add: rule3_run_frame[OF put_frame_simps(1) rdp] sc3_def fl3_def fc3_def P3_def)
  have r4: "rule4_run c (put_frame c (claims_frame cs sc3 fl3 (Some keys) (Some ot)) w2, fc3) =
            Some (put_frame c (claims_frame cs sc4 fl4 (Some keys) (Some ot)) w2, fc4)"
    by (simp add: rule4_run_frame[OF put_frame_simps(1) rdp] sc4_def fl4_def fc4_def P4_def)
  have r5: "rule5_run c (put_frame c (claims_frame cs sc4 fl4 (Some keys) (Some ot)) w2, fc4) =
            Some ((put_frame c (claims_frame cs sc5 fl5 (Some keys) (Some ot)) w2, fc5), l95, p25)"
    by (simp add: rule5_run_frame[OF put_frame_simps(1) rdp] sc5_def fl5_def fc5_def P5_def l95_def p25_def)
  have u1: "update_object c rstrip_flags
              (put_frame c (claims_frame cs sc5 fl5 (Some keys) (Some ot)) w2) =
            Some (put_frame c
                    (claims_frame cs sc5 (\<lambda>r. rstrip '','' (fl5 r)) (Some keys) (Some ot)) w2)"
    by (simp add: update_object_def put_frame_def rstrip_flags_def claims_frame_def o_def)
  have u2: "update_object c drop_helpers
              (put_frame c
                 (claims_frame cs sc5 (\<lambda>r. rstrip '','' (fl5 r)) (Some keys) (Some ot)) w2) =
            Some w'"
    by (simp add: update_object_def put_frame_def drop_helpers_def claims_frame_def w'_def)

  have run: "apply_rules_run df w =
             Some ((c, fc5, \<lparr>loss_95_threshold = l95, premium_25_threshold = p25,
                              age_group_thresholds = thr\<rparr>), w')"
    unfolding apply_rules_run_def
    by (simp only: d Option.bind.bind_lunit Let_def f0_def[symmetric] new prod.case h1 rows0
        line_def[symmetric] w2_def[symmetric] s1 s2 r1 r2 r3 r4 r5 u1 u2 fst_conv snd_conv)

  have score: "sc5 r = table_score cs r" for r
    by (simp add: sc5_def sc4_def sc3_def sc2_def sc1_def table_score_unfold
        P1_def P2_def P3_def P4_def P5_def)
  have flags: "rstrip '','' (fl5 r) = join '','' (triggered_rules cs r)" for r
    unfolding triggered_rules_unfold fl5_def fl4_def fl3_def fl2_def fl1_def
      P1_def[symmetric] P2_def[symmetric] P3_def[symmetric] P4_def[symmetric] P5_def[symmetric]
    by (simp add: rstrip_def)
  have counts: "fc5 = map (\<lambda>(rule, label, score). (rule, length (filter (table_predicate rule cs) cs)))
                        RULE_DEFINITIONS"
    by (simp add: fc5_def fc4_def fc3_def fc2_def fc1_def RULE_DEFINITIONS_def
        P1_def P2_def P3_def P4_def P5_def)
  have res: "snd (apply_rules (policy_rows d)) =
             (fc5, \<lparr>loss_95_threshold = l95, premium_25_threshold = p25,
                     age_group_thresholds = thr\<rparr>)"
    by (simp add: apply_rules_rows cs_def[symmetric] counts l95_def p25_def thr_def)
  have frame: "claims_frame cs sc5 (\<lambda>r. rstrip '','' (fl5 r)) None None =
        \<lparr>policy_rows = claim_subset (policy_rows d),
         risk_score_column = Some (map risk_score (fst (apply_rules (policy_rows d)))),
         flags_column = Some (map flags (fst (apply_rules (policy_rows d)))),
         age_group_column = None, outlier_threshold_column = None\<rparr>"
    by (simp add: claims_frame_def apply_rules_rows cs_def[symmetric] o_def score flags)

  show ?thesis
    unfolding run res frame[symmetric] w'_def w2_def line_def w1_def f0_def c_def cs_def
    by (rule refl)
qed

text \<open>
  Claim C9, as amended. A call \<^verbatim>\<open>apply_rules(df)\<close> in a world where \<open>df\<close> refers to a data
  frame and the module's rule table is as loaded: returns, with a reference to a newly
  created frame, the counts and thresholds that \<open>apply_rules\<close> computes from the input
  columns of that frame alone; leaves the input frame and every other object that existed
  before the call as it was, and the rule table too; the new frame holds the claim
  subset with the computed \<open>risk_score\<close> and \<open>flags\<close> columns and no helper column. Its
  one effect besides is on standard output: the line \<open>Customers with claims (total_loss >
  0): N\<close>, with \<open>N\<close> the number of claim records, and a blank line.
\<close>

theorem apply_rules_run_effects:
  assumes d: "heap w df = Some d"
    and wf: "wf_world w"
    and rd: "rule_definitions w = RULE_DEFINITIONS"
  shows "\<exists>w'. apply_rules_run df w = Some ((next_ref w, snd (apply_rules (policy_rows d))), w') \<and>
      heap w' (next_ref w) =
        Some \<lparr>policy_rows = claim_subset (policy_rows d),
              risk_score_column = Some (map risk_score (fst (apply_rules (policy_rows d)))),
              flags_column = Some (map flags (fst (apply_rules (policy_rows d)))),
              age_group_column = None, outlier_threshold_column = None\<rparr> \<and>
      (\<forall>p. p \<noteq> next_ref w \<longrightarrow> heap w' p = heap w p) \<and>
      heap w' df = Some d \<and>
      rule_definitions w' = rule_definitions w \<and>
      next_ref w' = Suc (next_ref w) \<and>
      wf_world w' \<and>
      stdout w' = stdout w @ ''Customers with claims (total_loss > 0): ''
                    @ format_thousands (length (claim_subset (policy_rows d)))
                    @ [CHR 0x0A, CHR 0x0A]"
proof -
  define w' where "w' =
      put_frame (next_ref w)
        \<lparr>policy_rows = claim_subset (policy_rows d),
         risk_score_column = Some (map risk_score (fst (apply_rules (policy_rows d)))),
         flags_column = Some (map flags (fst (apply_rules (policy_rows d)))),
         age_group_column = None, outlier_threshold_column = None\<rparr>
        (print (''Customers with claims (total_loss > 0): ''
                 @ format_thousands (length (claim_subset (policy_rows d))) @ [CHR 0x0A])
           (w\<lparr>heap := (heap w)(next_ref w \<mapsto>
                    boolean_index (map (\<lambda>x. x > 0) (map total_loss (policy_rows d))) d),
               next_ref := Suc (next_ref w)\<rparr>))"
  have ne: "df \<noteq> next_ref w"
    using d wf by (auto simp: wf_world_def)
  have 1: "apply_rules_run df w = Some ((next_ref w, snd (apply_rules (policy_rows d))), w')"
    unfolding w'_def using d rd by (rule apply_rules_run_world)
  have 2: "heap w' (next_ref w) =
        Some \<lparr>policy_rows = claim_subset (policy_rows d),
              risk_score_column = Some (map risk_score (fst (apply_rules (policy_rows d)))),
              flags_column = Some (map flags (fst (apply_rules (policy_rows d)))),
              age_group_column = None, outlier_threshold_column = None\<rparr>"
    by (simp add: w'_def)
  have 3: "\<forall>p. p \<noteq> next_ref w \<longrightarrow> heap w' p = heap w p"
    by (simp add: w'_def)
  have 4: "heap w' df = Some d"
    using 3 ne d by simp
  have 5: "rule_definitions w' = rule_definitions w"
    by (simp add: w'_def)
  have 6: "next_ref w' = Suc (next_ref w)"
    by (simp add: w'_def)
  have 7: "wf_world w'"
    unfolding wf_world_def
  proof (intro allI impI)
    fix p assume "heap w' p \<noteq> None"
    show "p < next_ref w'"
    proof (cases "p = next_ref w")
      case True
      then show ?thesis by (simp add: 6)
    next
      case False
      with 3 \<open>heap w' p \<noteq> None\<close> have "heap w p \<noteq> None" by simp
      with wf have "p < next_ref w" by (simp add: wf_world_def)
      then show ?thesis by (simp add: 6)
    qed
  qed
  have 8: "stdout w' = stdout w @ ''Customers with claims (total_loss > 0): ''
                    @ format_thousands (length (claim_subset (policy_rows d)))
                    @ [CHR 0x0A, CHR 0x0A]"
    by (simp add: w'_def)
  from 1 2 3 4 5 6 7 8 show ?thesis by blast
qed

lemma format_thousands_3: "format_thousands 3 = ''3''"
  by (simp add: format_thousands_def decimal.simps group_thousands.simps)

lemma format_thousands_1: "format_thousands 1 = ''1''"
  by (simp add: format_thousands_def decimal.simps group_thousands.simps)

lemma decimal_1234567: "decimal 1234567 = ''1234567''"
proof -
  have 1: "decimal (Suc 0) = ''1''" by (subst decimal.simps) simp
  have 2: "decimal 12 = ''12''" by (subst decimal.simps) (simp add: 1)
  have 3: "decimal 123 = ''123''" by (subst decimal.simps) (simp add: 2)
  have 4: "decimal 1234 = ''1234''" by (subst decimal.simps) (simp add: 3)
  have 5: "decimal 12345 = ''12345''" by (subst decimal.simps) (simp add: 4)
  have 6: "decimal 123456 = ''123456''" by (subst decimal.simps) (simp add: 5)
  show ?thesis by (subst decimal.simps) (simp add: 6)
qed

lemma format_thousands_1234567: "format_thousands 1234567 = ''1,234,567''"
proof -
  have 1: "group_thousands ''1'' = ''1''" by (subst group_thousands.simps) simp
  have 2: "group_thousands ''1234'' = ''1,234''" by (subst group_thousands.simps) (simp add: 1)
  have 3: "group_thousands ''1234567'' = ''1,234,567''"
    by (subst group_thousands.simps) (simp add: 2)
  show ?thesis by (simp add: format_thousands_def decimal_1234567 3)
qed

lemma wf_world0: "wf_world world0"
  by (simp add: wf_world_def world0_def)

lemma wf_world1: "wf_world world1"
  by (simp add: wf_world_def world1_def)

lemma length_scenario_claims: "length (claim_subset scenario) = 3"
  by (simp add: claim_subset_scenario)

text \<open>
  In the first world the call on the scenario's frame returns reference 1, leaves the
  input frame as it was and prints the line for three claim records. In the second world
  the call is made on a frame that already has the columns \<^verbatim>\<open>risk_score\<close> and
  \<^verbatim>\<open>flags\<close>; it returns what it returns for the input columns alone, and both existing
  frames are as they were.
\<close>

theorem apply_rules_run_effects_witness:
  "(\<exists>w'. apply_rules_run 0 world0 = Some ((1, snd (apply_rules scenario)), w') \<and>
      heap w' 0 = Some (input_frame scenario) \<and>
      risk_score_column (the (heap w' 1)) = Some [3, 6, 2] \<and>
      stdout w' = ''Customers with claims (total_loss > 0): 3'' @ [CHR 0x0A, CHR 0x0A]) \<and>
   (\<exists>w'. apply_rules_run 0 world1 = Some ((2, snd (apply_rules [rounded_record])), w') \<and>
      heap w' 0 = heap world1 0 \<and> heap w' 1 = Some (input_frame scenario) \<and>
      risk_score_column (the (heap w' 2)) = Some [1])"
proof -
  have h0: "heap world0 0 = Some (input_frame scenario)"
    and r0: "rule_definitions world0 = RULE_DEFINITIONS"
    and n0: "next_ref world0 = 1" and s0: "stdout world0 = []"
    by (simp_all add: world0_def)
  have p0: "policy_rows (input_frame scenario) = scenario"
    by (simp add: input_frame_def)
  have sc0: "map risk_score (fst (apply_rules scenario)) = [3, 6, 2]"
    by (simp add: apply_rules_rows o_def scenario_scores)
  from apply_rules_run_effects [OF h0 wf_world0 r0]
  obtain w' where a: "apply_rules_run 0 world0 = Some ((1, snd (apply_rules scenario)), w')"
    and b: "heap w' 0 = Some (input_frame scenario)"
    and c: "risk_score_column (the (heap w' 1)) = Some [3, 6, 2]"
    and e: "stdout w' = ''Customers with claims (total_loss > 0): 3'' @ [CHR 0x0A, CHR 0x0A]"
    unfolding p0 n0 s0 length_scenario_claims format_thousands_3 sc0 by auto
  let ?d = "(input_frame [rounded_record])
              \<lparr>risk_score_column := Some [1], flags_column := Some [''premium_loss_mismatch'']\<rparr>"
  have h1: "heap world1 0 = Some ?d"
    and h1': "heap world1 1 = Some (input_frame scenario)"
    and r1: "rule_definitions world1 = RULE_DEFINITIONS"
    and n1: "next_ref world1 = 2"
    by (simp_all add: world1_def)
  have p1: "policy_rows ?d = [rounded_record]"
    by (simp add: input_frame_def)
  have pos: "total_loss rounded_record > 0" by (simp add: rounded_record_fields)
  have t1: "table_score [rounded_record] rounded_record = 1"
    unfolding table_score_explicit
    by (simp add: rounded_record_fields band_interval_def exceeds_three_sigma_def
        interpolated_percentile_def)
  have sc1: "map risk_score (fst (apply_rules [rounded_record])) = [1]"
    using pos t1 by (simp add: single_record_rows)
  from apply_rules_run_effects [OF h1 wf_world1 r1]
  obtain v' where a1: "apply_rules_run 0 world1 = Some ((2, snd (apply_rules [rounded_record])), v')"
    and b1: "heap v' 0 = heap world1 0"
    and c1: "heap v' 1 = Some (input_frame scenario)"
    and e1: "risk_score_column (the (heap v' 2)) = Some [1]"
    unfolding p1 n1 sc1 using h1 h1' by auto
  from a b c e a1 b1 c1 e1 show ?thesis by blast
qed

text \<open>
  The claim as stated fails: the engine performs output. Before the run on the scenario
  nothing has been printed; after it, standard output holds the line and a blank line.
\<close>

theorem apply_rules_prints_counterexample:
  "stdout world0 = [] \<and>
   map_option (\<lambda>res. stdout (snd res)) (apply_rules_run 0 world0) =
     Some (''Customers with claims (total_loss > 0): 3'' @ [CHR 0x0A, CHR 0x0A])"
proof -
  have h0: "heap world0 0 = Some (input_frame scenario)"
    and r0: "rule_definitions world0 = RULE_DEFINITIONS"
    and s0: "stdout world0 = []"
    by (simp_all add: world0_def)
  have p0: "policy_rows (input_frame scenario) = scenario"
    by (simp add: input_frame_def)
  show ?thesis
    unfolding apply_rules_run_world[OF h0 r0] p0 length_scenario_claims format_thousands_3
    by (simp add: s0)
qed

end
